theory Spec2Isabelle
  imports Complex_Main
begin

section \<open>Data model\<close>

text \<open>
  The row types follow the TypeScript interfaces of the application and the SQL schema of
  the data store. Identifiers (UUIDs) are strings; timestamps are strings as well, the
  application never computes with them. A nullable column is an \<open>option\<close>.
\<close>

type_synonym uuid = string

record user =
  u_id :: uuid

record podcast =
  p_id :: uuid
  p_title :: string
  p_description :: string
  p_cover_image_url :: "string option"
  p_author_id :: uuid
  p_created_at :: string
  p_updated_at :: string

record episode =
  e_id :: uuid
  e_podcast_id :: uuid
  e_title :: string
  e_description :: string
  e_audio_url :: string
  e_duration :: int
  e_published_at :: string
  e_created_at :: string

text \<open>A browser \<open>File\<close>: its name, its mime type and its size in bytes.\<close>

record js_file =
  f_name :: string
  f_type :: string
  f_size :: nat

section \<open>The backend: tables, buckets and the replies of the client library\<close>

text \<open>
  The tables \<open>podcasts\<close> and \<open>episodes\<close> are lists of rows. The join tables
  \<open>subscriptions\<close> and \<open>favorites\<close> are sets of pairs \<open>(user_id, podcast_id)\<close>
  and \<open>(user_id, episode_id)\<close>: the schema declares each pair \<open>UNIQUE\<close>, and the
  remaining columns (\<open>id\<close>, \<open>created_at\<close>) are defaults generated by the store that
  the toggles never read. The \<open>profiles\<close> table is outside the model: every
  authenticated user is taken to have a profile row. Object storage is the list of bucket
  names and the list of stored objects \<open>(bucket, path)\<close>.
\<close>

record backend =
  podcasts :: "podcast list"
  episodes :: "episode list"
  subscriptions :: "(uuid \<times> uuid) set"
  favorites :: "(uuid \<times> uuid) set"
  buckets :: "string list"
  objects :: "(string \<times> string) list"

text \<open>
  Every call of the client library is asynchronous. What happens to one call is chosen by
  the environment: the store serves it (\<open>NoFault\<close>), the store or the network rejects
  it and the library resolves the promise with an \<open>error\<close> value (\<open>StoreError\<close>), or
  the awaited promise rejects and \<open>await\<close> throws (\<open>ClientThrow\<close>). A rejected or
  thrown call leaves the backend as it was.
\<close>

datatype fault = NoFault | StoreError string | ClientThrow string

text \<open>The awaited result: the object \<open>{ data, error }\<close>, or an exception.\<close>

datatype 'a reply = Reply "'a option" "string option" | Thrown string

text \<open>
  The externally visible actions of a handler, in program order: the requests sent to the
  store and to object storage, navigation, \<open>console.error\<close>, \<open>alert\<close> and
  \<open>confirm\<close>. Calls of \<open>console.log\<close> are not recorded. A handler is one step:
  it takes the component state and the backend as they are when it starts and returns them
  as they are when its last awaited call has settled; two pending handlers of one
  component are not interleaved.
\<close>

record episode_insert =
  ei_podcast_id :: uuid
  ei_title :: string
  ei_description :: string
  ei_audio_url :: string
  ei_duration :: int
  ei_published_at :: string

record podcast_insert =
  pi_title :: string
  pi_description :: string
  pi_cover_image_url :: "string option"
  pi_author_id :: uuid

datatype request =
    DbSelect string string
  | DbInsertPodcast podcast_insert
  | DbInsertEpisode episode_insert
  | DbInsertEpisodeNullDuration uuid string string string string
  | DbInsertJoin string uuid uuid
  | DbDelete string uuid
  | DbDeleteJoin string uuid uuid
  | StorageListBuckets
  | StorageCreateBucket string
  | StorageUpload string string js_file

datatype effect =
    Request request
  | Navigate string
  | ConsoleError string
  | Alert string
  | Confirm string

subsection \<open>Store operations (SQL schema and row-level security policies)\<close>

text \<open>
  \<open>auth\<close> is \<open>auth.uid()\<close>, the id of the session's user, \<open>None\<close> without a
  session. A policy \<open>USING (auth.uid() = c)\<close> restricts a delete silently to the rows it
  admits; a policy \<open>WITH CHECK\<close> rejects an insert with an error.
\<close>

definition served :: "fault \<Rightarrow> 'a reply \<times> backend \<Rightarrow> backend \<Rightarrow> 'a reply \<times> backend" where
  "served flt r b =
     (case flt of
        NoFault \<Rightarrow> r
      | StoreError m \<Rightarrow> (Reply None (Some m), b)
      | ClientThrow m \<Rightarrow> (Thrown m, b))"

text \<open>
  \<open>DELETE FROM podcasts WHERE id = pid\<close> under the policy
  \<open>auth.uid() = author_id\<close>. The foreign keys are \<open>ON DELETE CASCADE\<close>: the episodes
  of a deleted podcast go, with the favorites of those episodes and the subscriptions to
  the podcast.
\<close>

definition db_delete_podcast ::
    "uuid option \<Rightarrow> uuid \<Rightarrow> fault \<Rightarrow> backend \<Rightarrow> unit reply \<times> backend" where
  "db_delete_podcast auth pid flt b =
     served flt
       (let gone = filter (\<lambda>p. p_id p = pid \<and> auth = Some (p_author_id p)) (podcasts b);
            gone_ids = map p_id gone;
            gone_eps = filter (\<lambda>e. e_podcast_id e \<in> set gone_ids) (episodes b)
        in (Reply None None,
            b\<lparr>podcasts := filter (\<lambda>p. \<not> (p_id p = pid \<and> auth = Some (p_author_id p))) (podcasts b),
              episodes := filter (\<lambda>e. e_podcast_id e \<notin> set gone_ids) (episodes b),
              subscriptions := Set.filter (\<lambda>r. snd r \<notin> set gone_ids) (subscriptions b),
              favorites := Set.filter (\<lambda>r. snd r \<notin> set (map e_id gone_eps)) (favorites b)\<rparr>))
       b"

text \<open>
  \<open>DELETE FROM episodes WHERE id = eid\<close> under the policy
  \<open>auth.uid() IN (SELECT author_id FROM podcasts WHERE id = podcast_id)\<close>.
\<close>

definition owns_episode :: "uuid option \<Rightarrow> backend \<Rightarrow> uuid \<Rightarrow> bool" where
  "owns_episode auth b podcast_id =
     (\<exists>p \<in> set (podcasts b). p_id p = podcast_id \<and> auth = Some (p_author_id p))"

definition db_delete_episode ::
    "uuid option \<Rightarrow> uuid \<Rightarrow> fault \<Rightarrow> backend \<Rightarrow> unit reply \<times> backend" where
  "db_delete_episode auth eid flt b =
     served flt
       (let gone = filter (\<lambda>e. e_id e = eid \<and> owns_episode auth b (e_podcast_id e)) (episodes b)
        in (Reply None None,
            b\<lparr>episodes := filter (\<lambda>e. \<not> (e_id e = eid \<and> owns_episode auth b (e_podcast_id e))) (episodes b),
              favorites := Set.filter (\<lambda>r. snd r \<notin> set (map e_id gone)) (favorites b)\<rparr>))
       b"

text \<open>
  \<open>INSERT INTO episodes\<close> followed by \<open>.select().single()\<close>: the policy checks that
  the session's user is the author of the podcast (which must therefore exist); the
  primary key \<open>new_id\<close> and \<open>created_at\<close> are generated by the store.
\<close>

definition db_insert_episode ::
    "uuid option \<Rightarrow> episode_insert \<Rightarrow> uuid \<Rightarrow> string \<Rightarrow> fault \<Rightarrow> backend \<Rightarrow> episode reply \<times> backend" where
  "db_insert_episode auth row new_id now flt b =
     served flt
       (if \<not> owns_episode auth b (ei_podcast_id row) then
          (Reply None (Some ''new row violates row-level security policy for table episodes''), b)
        else if new_id \<in> set (map e_id (episodes b)) then
          (Reply None (Some ''duplicate key value violates unique constraint episodes_pkey''), b)
        else
          (let e = \<lparr>e_id = new_id, e_podcast_id = ei_podcast_id row, e_title = ei_title row,
                    e_description = ei_description row, e_audio_url = ei_audio_url row,
                    e_duration = ei_duration row, e_published_at = ei_published_at row,
                    e_created_at = now\<rparr>
           in (Reply (Some e) None, b\<lparr>episodes := episodes b @ [e]\<rparr>)))
       b"

text \<open>
  The same insert with \<open>duration: null\<close> in its payload (podcast id, title, description,
  audio URL and publication date are the other fields): the column is \<open>NOT NULL\<close>, the
  store refuses the row.
\<close>

definition db_insert_episode_null :: "fault \<Rightarrow> backend \<Rightarrow> episode reply \<times> backend" where
  "db_insert_episode_null flt b =
     served flt
       (Reply None (Some ''null value in column duration violates not-null constraint''), b)
       b"

text \<open>\<open>INSERT INTO podcasts\<close> under the policy \<open>auth.uid() = author_id\<close>.\<close>

definition db_insert_podcast ::
    "uuid option \<Rightarrow> podcast_insert \<Rightarrow> uuid \<Rightarrow> string \<Rightarrow> fault \<Rightarrow> backend \<Rightarrow> podcast reply \<times> backend" where
  "db_insert_podcast auth row new_id now flt b =
     served flt
       (if auth \<noteq> Some (pi_author_id row) then
          (Reply None (Some ''new row violates row-level security policy for table podcasts''), b)
        else if new_id \<in> set (map p_id (podcasts b)) then
          (Reply None (Some ''duplicate key value violates unique constraint podcasts_pkey''), b)
        else
          (let p = \<lparr>p_id = new_id, p_title = pi_title row, p_description = pi_description row,
                    p_cover_image_url = pi_cover_image_url row, p_author_id = pi_author_id row,
                    p_created_at = now, p_updated_at = now\<rparr>
           in (Reply (Some p) None, b\<lparr>podcasts := podcasts b @ [p]\<rparr>)))
       b"

text \<open>
  The join tables. An insert is checked against the policy \<open>auth.uid() = user_id\<close>,
  the foreign key to the episode (podcast) and the \<open>UNIQUE\<close> pair; a delete removes the
  pair when the policy admits it, and is no error when there is nothing to remove.
\<close>

definition db_insert_favorite ::
    "uuid option \<Rightarrow> uuid \<Rightarrow> uuid \<Rightarrow> fault \<Rightarrow> backend \<Rightarrow> unit reply \<times> backend" where
  "db_insert_favorite auth episode_id user_id flt b =
     served flt
       (if auth \<noteq> Some user_id then
          (Reply None (Some ''new row violates row-level security policy for table favorites''), b)
        else if episode_id \<notin> set (map e_id (episodes b)) then
          (Reply None (Some ''insert violates foreign key constraint favorites_episode_id_fkey''), b)
        else if (user_id, episode_id) \<in> favorites b then
          (Reply None (Some ''duplicate key value violates unique constraint favorites_user_id_episode_id_key''), b)
        else (Reply None None, b\<lparr>favorites := insert (user_id, episode_id) (favorites b)\<rparr>))
       b"

definition db_delete_favorite ::
    "uuid option \<Rightarrow> uuid \<Rightarrow> uuid \<Rightarrow> fault \<Rightarrow> backend \<Rightarrow> unit reply \<times> backend" where
  "db_delete_favorite auth episode_id user_id flt b =
     served flt
       (Reply None None,
        if auth = Some user_id then b\<lparr>favorites := favorites b - {(user_id, episode_id)}\<rparr> else b)
       b"

definition db_insert_subscription ::
    "uuid option \<Rightarrow> uuid \<Rightarrow> uuid \<Rightarrow> fault \<Rightarrow> backend \<Rightarrow> unit reply \<times> backend" where
  "db_insert_subscription auth podcast_id user_id flt b =
     served flt
       (if auth \<noteq> Some user_id then
          (Reply None (Some ''new row violates row-level security policy for table subscriptions''), b)
        else if podcast_id \<notin> set (map p_id (podcasts b)) then
          (Reply None (Some ''insert violates foreign key constraint subscriptions_podcast_id_fkey''), b)
        else if (user_id, podcast_id) \<in> subscriptions b then
          (Reply None (Some ''duplicate key value violates unique constraint subscriptions_user_id_podcast_id_key''), b)
        else (Reply None None, b\<lparr>subscriptions := insert (user_id, podcast_id) (subscriptions b)\<rparr>))
       b"

definition db_delete_subscription ::
    "uuid option \<Rightarrow> uuid \<Rightarrow> uuid \<Rightarrow> fault \<Rightarrow> backend \<Rightarrow> unit reply \<times> backend" where
  "db_delete_subscription auth podcast_id user_id flt b =
     served flt
       (Reply None None,
        if auth = Some user_id then b\<lparr>subscriptions := subscriptions b - {(user_id, podcast_id)}\<rparr> else b)
       b"

text \<open>\<open>SELECT * FROM podcasts WHERE id = pid\<close> with \<open>.single()\<close>: exactly one row, or an error.\<close>

definition db_select_podcast_single :: "uuid \<Rightarrow> fault \<Rightarrow> backend \<Rightarrow> podcast reply \<times> backend" where
  "db_select_podcast_single pid flt b =
     served flt
       (case filter (\<lambda>p. p_id p = pid) (podcasts b) of
          [p] \<Rightarrow> (Reply (Some p) None, b)
        | _ \<Rightarrow> (Reply None (Some ''JSON object requested, multiple (or no) rows returned''), b))
       b"

subsection \<open>Object storage\<close>

definition storage_listBuckets :: "fault \<Rightarrow> backend \<Rightarrow> string list reply \<times> backend" where
  "storage_listBuckets flt b = served flt (Reply (Some (buckets b)) None, b) b"

definition storage_createBucket :: "string \<Rightarrow> fault \<Rightarrow> backend \<Rightarrow> unit reply \<times> backend" where
  "storage_createBucket name flt b =
     served flt
       (if name \<in> set (buckets b) then (Reply None (Some ''The resource already exists''), b)
        else (Reply None None, b\<lparr>buckets := buckets b @ [name]\<rparr>))
       b"

text \<open>
  An upload needs its bucket; with \<open>upsert: false\<close> it is refused when the path is taken.
\<close>

definition storage_upload ::
    "string \<Rightarrow> string \<Rightarrow> js_file \<Rightarrow> bool \<Rightarrow> fault \<Rightarrow> backend \<Rightarrow> unit reply \<times> backend" where
  "storage_upload bucket path f upsert flt b =
     served flt
       (if bucket \<notin> set (buckets b) then (Reply None (Some ''Bucket not found''), b)
        else if (bucket, path) \<in> set (objects b) then
          (if upsert then (Reply None None, b)
           else (Reply None (Some ''The resource already exists''), b))
        else (Reply None None, b\<lparr>objects := objects b @ [(bucket, path)]\<rparr>))
       b"

definition getPublicUrl :: "string \<Rightarrow> string \<Rightarrow> string" where
  "getPublicUrl bucket path = ''/storage/v1/object/public/'' @ bucket @ ''/'' @ path"

section \<open>Helpers of the JavaScript runtime\<close>

definition startsWith :: "string \<Rightarrow> string \<Rightarrow> bool" where
  "startsWith s p = (take (length p) s = p)"

text \<open>\<open>name.split('.').pop()\<close>: what follows the last dot, the whole name when there is none.\<close>

definition fileExt :: "string \<Rightarrow> string" where
  "fileExt name = rev (takeWhile (\<lambda>c. c \<noteq> CHR ''.'') (rev name))"

text \<open>\<open>Math.round\<close> on a finite number: the nearest integer, a half rounded up.\<close>

definition Math_round :: "rat \<Rightarrow> int" where
  "Math_round x = \<lfloor>x + 1 / 2\<rfloor>"

text \<open>\<open>err.message || fallback\<close>: the empty message is falsy.\<close>

definition message_or :: "string \<Rightarrow> string \<Rightarrow> string" where
  "message_or m fallback = (if m = [] then fallback else m)"

section \<open>Create episode (CreateEpisode.tsx)\<close>

record episode_form =
  ef_title :: string
  ef_description :: string
  ef_publishedAt :: string

text \<open>The zod schema that \<open>handleSubmit\<close> checks before it calls \<open>onSubmit\<close>.\<close>

definition episodeSchema :: "episode_form \<Rightarrow> bool" where
  "episodeSchema frm =
     (3 \<le> length (ef_title frm) \<and> 10 \<le> length (ef_description frm) \<and> ef_publishedAt frm \<noteq> [])"

record ce_state =
  ce_podcast :: "podcast option"
  audioFile :: "js_file option"
  isUploading :: bool
  uploadProgress :: nat
  ce_error :: "string option"

definition ce_init :: ce_state where
  "ce_init = \<lparr>ce_podcast = None, audioFile = None, isUploading = False, uploadProgress = 0,
              ce_error = None\<rparr>"

definition handleAudioChange :: "js_file option \<Rightarrow> ce_state \<Rightarrow> ce_state" where
  "handleAudioChange picked s =
     (case picked of
        None \<Rightarrow> s
      | Some f \<Rightarrow>
          if \<not> startsWith (f_type f) ''audio/'' then
            s\<lparr>ce_error := Some ''Please upload an audio file''\<rparr>
          else if f_size f > 100 * 1024 * 1024 then
            s\<lparr>ce_error := Some ''Audio file size should be less than 100MB''\<rparr>
          else s\<lparr>audioFile := Some f, ce_error := None\<rparr>)"

text \<open>
  What the transient \<open>audio\<close> element does with the file is the browser's choice: it
  fires \<open>loadedmetadata\<close> and reports a finite duration in seconds
  (\<open>LoadedMetadata\<close>), it fires \<open>loadedmetadata\<close> and reports \<open>Infinity\<close> or
  \<open>NaN\<close>, as for a recording without a length in its header (\<open>LoadedNonFinite\<close>), it
  fires \<open>error\<close>, or it fires neither and the promise stays pending. The quotient
  \<open>size / (1024 * 1024)\<close> and its product with 60 are exact in double precision for every
  size below \<open>2^53 / 60\<close>, so rational arithmetic computes what the code computes.
  \<open>Math.round\<close> returns \<open>Infinity\<close> and \<open>NaN\<close> as they are; both become \<open>null\<close>
  in the JSON payload of the insert.
\<close>

datatype audio_event = LoadedMetadata rat | LoadedNonFinite | ErrorEvent | NoEvent

datatype js_duration = Seconds int | NonFinite

definition getAudioDuration :: "js_file \<Rightarrow> audio_event \<Rightarrow> js_duration option" where
  "getAudioDuration f ev =
     (case ev of
        LoadedMetadata d \<Rightarrow> Some (Seconds (Math_round d))
      | LoadedNonFinite \<Rightarrow> Some NonFinite
      | ErrorEvent \<Rightarrow>
          (let sizeInMB = of_nat (f_size f) / (1024 * 1024)
           in Some (Seconds (Math_round (sizeInMB * 60))))
      | NoEvent \<Rightarrow> None)"

text \<open>
  What the environment contributes to one submission: the random file name, the event of
  the audio element, the outcome of the upload, the ISO form of the publication date
  (\<open>None\<close> when \<open>toISOString\<close> throws on an invalid date), the outcome of the insert,
  and the key and timestamp the store generates.
\<close>

record submit_env =
  rnd :: string
  probe :: audio_event
  upload_fault :: fault
  published_iso :: "string option"
  insert_fault :: fault
  new_id :: uuid
  now :: string

text \<open>The \<open>catch\<close> and \<open>finally\<close> blocks of \<open>onSubmit\<close>.\<close>

definition ce_catch :: "string \<Rightarrow> ce_state \<Rightarrow> ce_state" where
  "ce_catch m s =
     s\<lparr>ce_error := Some (message_or m ''Failed to create episode''),
       isUploading := False, uploadProgress := 0\<rparr>"

text \<open>What \<open>onSubmit\<close> does with the reply of the insert.\<close>

definition ce_inserted ::
    "podcast \<Rightarrow> effect list \<Rightarrow> ce_state \<Rightarrow> episode reply \<times> backend
       \<Rightarrow> ce_state \<times> backend \<times> effect list" where
  "ce_inserted pod tr s1 rb =
     (case rb of
        (Thrown m, b2) \<Rightarrow>
          (ce_catch m s1, b2, tr @ [ConsoleError ''Error creating episode:''])
      | (Reply _ (Some m), b2) \<Rightarrow>
          (ce_catch (''Failed to create episode: '' @ m) s1, b2,
           tr @ [ConsoleError ''Insert error:'', ConsoleError ''Error creating episode:''])
      | (Reply _ None, b2) \<Rightarrow>
          (s1\<lparr>isUploading := False, uploadProgress := 0\<rparr>, b2,
           tr @ [Navigate (''/dashboard/podcasts/'' @ p_id pod @ ''/episodes'')]))"

definition onSubmit_episode ::
    "user option \<Rightarrow> episode_form \<Rightarrow> submit_env \<Rightarrow> ce_state \<Rightarrow> backend
       \<Rightarrow> ce_state \<times> backend \<times> effect list" where
  "onSubmit_episode usr frm env s b =
     (case (usr, ce_podcast s, audioFile s) of
        (Some u, Some pod, Some af) \<Rightarrow>
          (let s1 = s\<lparr>isUploading := True, ce_error := None\<rparr>;
               fileName = rnd env @ ''.'' @ fileExt (f_name af);
               filePath = p_id pod @ ''/'' @ fileName;
               up = Request (StorageUpload ''podcast-audio'' filePath af)
           in case getAudioDuration af (probe env) of
                None \<Rightarrow> (s1, b, [])
              | Some audioDuration \<Rightarrow>
                  (case storage_upload ''podcast-audio'' filePath af False (upload_fault env) b of
                     (Thrown m, b1) \<Rightarrow>
                       (ce_catch m s1, b1, [up, ConsoleError ''Error creating episode:''])
                   | (Reply _ (Some m), b1) \<Rightarrow>
                       (ce_catch (''Audio upload failed: '' @ m) s1, b1,
                        [up, ConsoleError ''Upload error:'', ConsoleError ''Error creating episode:''])
                   | (Reply _ None, b1) \<Rightarrow>
                       (case published_iso env of
                          None \<Rightarrow>
                            (ce_catch ''Invalid time value'' s1, b1,
                             [up, ConsoleError ''Error creating episode:''])
                        | Some published \<Rightarrow>
                            (case audioDuration of
                               Seconds n \<Rightarrow>
                                 (let row = \<lparr>ei_podcast_id = p_id pod, ei_title = ef_title frm,
                                             ei_description = ef_description frm,
                                             ei_audio_url = getPublicUrl ''podcast-audio'' filePath,
                                             ei_duration = n, ei_published_at = published\<rparr>
                                  in ce_inserted pod [up, Request (DbInsertEpisode row)] s1
                                       (db_insert_episode (Some (u_id u)) row (new_id env)
                                          (now env) (insert_fault env) b1))
                             | NonFinite \<Rightarrow>
                                 ce_inserted pod
                                   [up, Request (DbInsertEpisodeNullDuration (p_id pod)
                                          (ef_title frm) (ef_description frm)
                                          (getPublicUrl ''podcast-audio'' filePath) published)]
                                   s1 (db_insert_episode_null (insert_fault env) b1)))))
      | _ \<Rightarrow> (s\<lparr>ce_error := Some ''Please upload an audio file''\<rparr>, b, []))"

text \<open>The mount effect: the ownership check of the podcast and the bucket set-up.\<close>

definition ce_fetchPodcast ::
    "user \<Rightarrow> uuid \<Rightarrow> fault \<Rightarrow> ce_state \<Rightarrow> backend \<Rightarrow> ce_state \<times> effect list" where
  "ce_fetchPodcast u podcastId flt s b =
     (let sel = Request (DbSelect ''podcasts'' podcastId);
          failed = (s\<lparr>ce_error := Some ''Failed to load podcast details''\<rparr>,
                    [sel, ConsoleError ''Error fetching podcast:''])
      in case fst (db_select_podcast_single podcastId flt b) of
           Thrown m \<Rightarrow> failed
         | Reply _ (Some m) \<Rightarrow> failed
         | Reply None None \<Rightarrow> failed
         | Reply (Some d) None \<Rightarrow>
             if p_author_id d \<noteq> u_id u then (s, [sel, Navigate ''/dashboard''])
             else (s\<lparr>ce_podcast := Some d\<rparr>, [sel]))"

definition createStorageBucket :: "fault \<Rightarrow> fault \<Rightarrow> backend \<Rightarrow> backend \<times> effect list" where
  "createStorageBucket list_fault create_fault b =
     (case storage_listBuckets list_fault b of
        (Thrown m, b1) \<Rightarrow>
          (b1, [Request StorageListBuckets,
                ConsoleError ''Error checking/creating storage bucket:''])
      | (Reply listed _, b1) \<Rightarrow>
          (let bucketExists = (case listed of None \<Rightarrow> False
                                | Some bs \<Rightarrow> ''podcast-audio'' \<in> set bs)
           in if \<not> bucketExists then
                (case storage_createBucket ''podcast-audio'' create_fault b1 of
                   (Thrown m, b2) \<Rightarrow>
                     (b2, [Request StorageListBuckets, Request (StorageCreateBucket ''podcast-audio''),
                           ConsoleError ''Error checking/creating storage bucket:''])
                 | (Reply _ (Some m), b2) \<Rightarrow>
                     (b2, [Request StorageListBuckets, Request (StorageCreateBucket ''podcast-audio''),
                           ConsoleError ''Error creating storage bucket:''])
                 | (Reply _ None, b2) \<Rightarrow>
                     (b2, [Request StorageListBuckets, Request (StorageCreateBucket ''podcast-audio'')]))
              else (b1, [Request StorageListBuckets])))"

text \<open>
  The two asynchronous functions of the mount effect touch disjoint state; their actions
  are recorded one function after the other.
\<close>

definition ce_mount ::
    "user option \<Rightarrow> uuid option \<Rightarrow> fault \<Rightarrow> fault \<Rightarrow> fault \<Rightarrow> ce_state \<Rightarrow> backend
       \<Rightarrow> ce_state \<times> backend \<times> effect list" where
  "ce_mount usr podcastId sel_fault list_fault create_fault s b =
     (case usr of
        None \<Rightarrow> (s, b, [Navigate ''/login''])
      | Some u \<Rightarrow>
          (let (s1, tr1) = (case podcastId of None \<Rightarrow> (s, [])
                            | Some pid \<Rightarrow>
                                if pid = [] then (s, []) else ce_fetchPodcast u pid sel_fault s b);
               (b1, tr2) = createStorageBucket list_fault create_fault b
           in (s1, b1, tr1 @ tr2)))"

text \<open>The life of the component: what the user and the environment do to it, in order.\<close>

datatype ce_event =
    Mount "uuid option" fault fault fault
  | AudioChange "js_file option"
  | Submit episode_form submit_env

definition ce_step ::
    "user option \<Rightarrow> ce_state \<times> backend \<times> effect list \<Rightarrow> ce_event
       \<Rightarrow> ce_state \<times> backend \<times> effect list" where
  "ce_step usr cfg ev =
     (case cfg of (s, b, tr) \<Rightarrow>
        (case ev of
           Mount podcastId f1 f2 f3 \<Rightarrow>
             (case ce_mount usr podcastId f1 f2 f3 s b of (s', b', tr') \<Rightarrow> (s', b', tr @ tr'))
         | AudioChange picked \<Rightarrow> (handleAudioChange picked s, b, tr)
         | Submit frm env \<Rightarrow>
             if episodeSchema frm then
               (case onSubmit_episode usr frm env s b of (s', b', tr') \<Rightarrow> (s', b', tr @ tr'))
             else (s, b, tr)))"

definition ce_run :: "user option \<Rightarrow> backend \<Rightarrow> ce_event list \<Rightarrow> ce_state \<times> backend \<times> effect list" where
  "ce_run usr b evs = foldl (ce_step usr) (ce_init, b, []) evs"

section \<open>Relationship toggles (EpisodePlayer.tsx, PodcastDetail.tsx)\<close>

text \<open>
  Of the player's state the favorite toggle reads the loaded episode and the flag
  \<open>isFavorite\<close>, and writes the flag. The object the awaited call resolves with is
  dropped: only a thrown exception reaches the \<open>catch\<close> block.
\<close>

record player_state =
  pl_episode :: "episode option"
  isFavorite :: bool

definition handleFavorite ::
    "user option \<Rightarrow> fault \<Rightarrow> player_state \<Rightarrow> backend \<Rightarrow> player_state \<times> backend \<times> effect list" where
  "handleFavorite usr flt s b =
     (case (usr, pl_episode s) of
        (Some u, Some ep) \<Rightarrow>
          if isFavorite s then
            (case db_delete_favorite (Some (u_id u)) (e_id ep) (u_id u) flt b of
               (Thrown m, b') \<Rightarrow>
                 (s, b', [Request (DbDeleteJoin ''favorites'' (e_id ep) (u_id u)),
                          ConsoleError ''Error updating favorites:''])
             | (Reply _ _, b') \<Rightarrow>
                 (s\<lparr>isFavorite := False\<rparr>, b',
                  [Request (DbDeleteJoin ''favorites'' (e_id ep) (u_id u))]))
          else
            (case db_insert_favorite (Some (u_id u)) (e_id ep) (u_id u) flt b of
               (Thrown m, b') \<Rightarrow>
                 (s, b', [Request (DbInsertJoin ''favorites'' (e_id ep) (u_id u)),
                          ConsoleError ''Error updating favorites:''])
             | (Reply _ _, b') \<Rightarrow>
                 (s\<lparr>isFavorite := True\<rparr>, b',
                  [Request (DbInsertJoin ''favorites'' (e_id ep) (u_id u))]))
      | _ \<Rightarrow> (s, b, []))"

record detail_state =
  isSubscribed :: bool

definition handleSubscribe ::
    "user option \<Rightarrow> uuid \<Rightarrow> fault \<Rightarrow> detail_state \<Rightarrow> backend
       \<Rightarrow> detail_state \<times> backend \<times> effect list" where
  "handleSubscribe usr ident flt s b =
     (case usr of
        None \<Rightarrow> (s, b, [])
      | Some u \<Rightarrow>
          if isSubscribed s then
            (case db_delete_subscription (Some (u_id u)) ident (u_id u) flt b of
               (Thrown m, b') \<Rightarrow>
                 (s, b', [Request (DbDeleteJoin ''subscriptions'' ident (u_id u)),
                          ConsoleError ''Error updating subscription:''])
             | (Reply _ _, b') \<Rightarrow>
                 (s\<lparr>isSubscribed := False\<rparr>, b',
                  [Request (DbDeleteJoin ''subscriptions'' ident (u_id u))]))
          else
            (case db_insert_subscription (Some (u_id u)) ident (u_id u) flt b of
               (Thrown m, b') \<Rightarrow>
                 (s, b', [Request (DbInsertJoin ''subscriptions'' ident (u_id u)),
                          ConsoleError ''Error updating subscription:''])
             | (Reply _ _, b') \<Rightarrow>
                 (s\<lparr>isSubscribed := True\<rparr>, b',
                  [Request (DbInsertJoin ''subscriptions'' ident (u_id u))])))"

section \<open>Dashboard and episode list (Dashboard.tsx, PodcastEpisodes.tsx)\<close>

record dash_state =
  d_podcasts :: "podcast list"
  d_loading :: bool
  d_error :: "string option"

text \<open>
  The mount effect of the dashboard. The reply of the filtered, ordered select is the
  environment's; \<open>data || []\<close> turns a missing row set into the empty list.
\<close>

definition Dashboard_useEffect ::
    "user option \<Rightarrow> podcast list reply \<Rightarrow> dash_state \<Rightarrow> dash_state \<times> effect list" where
  "Dashboard_useEffect usr rep s =
     (case usr of
        None \<Rightarrow> (s, [Navigate ''/login''])
      | Some u \<Rightarrow>
          (let sel = Request (DbSelect ''podcasts'' (u_id u));
               failed = (s\<lparr>d_error := Some ''Failed to load your podcasts'', d_loading := False\<rparr>,
                         [sel, ConsoleError ''Error fetching podcasts:''])
           in case rep of
                Thrown m \<Rightarrow> failed
              | Reply _ (Some m) \<Rightarrow> failed
              | Reply rows None \<Rightarrow>
                  (s\<lparr>d_podcasts := (case rows of None \<Rightarrow> [] | Some ps \<Rightarrow> ps), d_loading := False\<rparr>,
                   [sel])))"

definition handleDeletePodcast ::
    "user option \<Rightarrow> uuid \<Rightarrow> bool \<Rightarrow> fault \<Rightarrow> dash_state \<Rightarrow> backend
       \<Rightarrow> dash_state \<times> backend \<times> effect list" where
  "handleDeletePodcast usr podcastId confirmed flt s b =
     (let ask = Confirm ''Are you sure you want to delete this podcast? This action cannot be undone.'';
          del = Request (DbDelete ''podcasts'' podcastId)
      in if \<not> confirmed then (s, b, [ask])
         else
           (case db_delete_podcast (map_option u_id usr) podcastId flt b of
              (Thrown m, b') \<Rightarrow>
                (s, b', [ask, del, ConsoleError ''Error deleting podcast:'',
                         Alert ''Failed to delete podcast''])
            | (Reply _ (Some m), b') \<Rightarrow>
                (s, b', [ask, del, ConsoleError ''Error deleting podcast:'',
                         Alert ''Failed to delete podcast''])
            | (Reply _ None, b') \<Rightarrow>
                (s\<lparr>d_podcasts := filter (\<lambda>podcast. p_id podcast \<noteq> podcastId) (d_podcasts s)\<rparr>,
                 b', [ask, del])))"

record episodes_state =
  pe_podcast :: "podcast option"
  pe_episodes :: "episode list"

definition handleDeleteEpisode ::
    "user option \<Rightarrow> uuid \<Rightarrow> bool \<Rightarrow> fault \<Rightarrow> episodes_state \<Rightarrow> backend
       \<Rightarrow> episodes_state \<times> backend \<times> effect list" where
  "handleDeleteEpisode usr episodeId confirmed flt s b =
     (let ask = Confirm ''Are you sure you want to delete this episode? This action cannot be undone.'';
          del = Request (DbDelete ''episodes'' episodeId)
      in if \<not> confirmed then (s, b, [ask])
         else
           (case db_delete_episode (map_option u_id usr) episodeId flt b of
              (Thrown m, b') \<Rightarrow>
                (s, b', [ask, del, ConsoleError ''Error deleting episode:'',
                         Alert ''Failed to delete episode''])
            | (Reply _ (Some m), b') \<Rightarrow>
                (s, b', [ask, del, ConsoleError ''Error deleting episode:'',
                         Alert ''Failed to delete episode''])
            | (Reply _ None, b') \<Rightarrow>
                (s\<lparr>pe_episodes := filter (\<lambda>episode. e_id episode \<noteq> episodeId) (pe_episodes s)\<rparr>,
                 b', [ask, del])))"

section \<open>Favorites page (Favorites.tsx)\<close>

record favorite_row =
  fv_id :: uuid
  fv_user_id :: uuid
  fv_episode_id :: uuid
  fv_created_at :: string
  fv_episode :: "episode option"

record fav_state =
  fv_favorites :: "favorite_row list"
  fv_loading :: bool
  fv_error :: "string option"

definition Favorites_useEffect ::
    "user option \<Rightarrow> favorite_row list reply \<Rightarrow> fav_state \<Rightarrow> fav_state \<times> effect list" where
  "Favorites_useEffect usr rep s =
     (case usr of
        None \<Rightarrow> (s, [Navigate ''/login''])
      | Some u \<Rightarrow>
          (let sel = Request (DbSelect ''favorites'' (u_id u));
               failed = (s\<lparr>fv_error := Some ''Failed to load your favorites'', fv_loading := False\<rparr>,
                         [sel, ConsoleError ''Error fetching favorites:''])
           in case rep of
                Thrown m \<Rightarrow> failed
              | Reply _ (Some m) \<Rightarrow> failed
              | Reply rows None \<Rightarrow>
                  (s\<lparr>fv_favorites := (case rows of None \<Rightarrow> [] | Some fs \<Rightarrow> fs), fv_loading := False\<rparr>,
                   [sel])))"

section \<open>Subscriptions page (Subscriptions.tsx)\<close>

record subscription_row =
  sb_id :: uuid
  sb_user_id :: uuid
  sb_podcast_id :: uuid
  sb_created_at :: string
  sb_podcast :: "podcast option"

record sub_state =
  sb_subscriptions :: "subscription_row list"
  sb_loading :: bool
  sb_error :: "string option"

definition Subscriptions_useEffect ::
    "user option \<Rightarrow> subscription_row list reply \<Rightarrow> sub_state \<Rightarrow> sub_state \<times> effect list" where
  "Subscriptions_useEffect usr rep s =
     (case usr of
        None \<Rightarrow> (s, [Navigate ''/login''])
      | Some u \<Rightarrow>
          (let sel = Request (DbSelect ''subscriptions'' (u_id u));
               failed = (s\<lparr>sb_error := Some ''Failed to load your subscriptions'',
                           sb_loading := False\<rparr>,
                         [sel, ConsoleError ''Error fetching subscriptions:''])
           in case rep of
                Thrown m \<Rightarrow> failed
              | Reply _ (Some m) \<Rightarrow> failed
              | Reply rows None \<Rightarrow>
                  (s\<lparr>sb_subscriptions := (case rows of None \<Rightarrow> [] | Some ss \<Rightarrow> ss),
                     sb_loading := False\<rparr>,
                   [sel])))"

section \<open>Routing (App.tsx)\<close>

text \<open>
  The authentication context gives the current user and whether the session is still
  being loaded. A route element renders to the loading placeholder, to a \<open>Navigate\<close>
  element, or to a page component.
\<close>

record auth_ctx =
  au_user :: "user option"
  au_loading :: bool

datatype page =
    Home | Login | Signup | PodcastDetail uuid | EpisodePlayer uuid | Dashboard | CreatePodcast
  | PodcastEpisodes uuid | CreateEpisode uuid | Subscriptions | Favorites

datatype view = LoadingView | NavigateTo string | PageView page

definition ProtectedRoute :: "auth_ctx \<Rightarrow> view \<Rightarrow> view" where
  "ProtectedRoute a children =
     (if au_loading a then LoadingView
      else if au_user a = None then NavigateTo ''/login''
      else children)"

text \<open>
  The router matches the location's path (decoded) against each route pattern without
  regard to the case of the letters. The path starts with a slash, slashes at its end are
  ignored, and a parameter such as \<open>:id\<close> stands for one piece between slashes that is
  not empty. A path that fits no pattern falls to the catch-all route.
\<close>

definition lower_char :: "char \<Rightarrow> char" where
  "lower_char c =
     (case map_of (zip ''ABCDEFGHIJKLMNOPQRSTUVWXYZ'' ''abcdefghijklmnopqrstuvwxyz'') c of
        None \<Rightarrow> c
      | Some l \<Rightarrow> l)"

definition toLowerCase :: "string \<Rightarrow> string" where
  "toLowerCase str = map lower_char str"

fun splitPath :: "string \<Rightarrow> string \<Rightarrow> string list" where
  "splitPath acc [] = [rev acc]"
| "splitPath acc (c # cs) =
     (if c = CHR ''/'' then rev acc # splitPath [] cs else splitPath (c # acc) cs)"

text \<open>
  The pieces after the leading slash, without the empty pieces at the end; \<open>None\<close> for
  a path that does not start with a slash.
\<close>

definition segments :: "string \<Rightarrow> string list option" where
  "segments path =
     (case splitPath [] path of
        [] \<Rightarrow> None
      | p # ps \<Rightarrow>
          if p \<noteq> [] then None
          else Some (rev (dropWhile (\<lambda>seg. seg = []) (rev ps))))"

definition AppRoutes :: "auth_ctx \<Rightarrow> string \<Rightarrow> view" where
  "AppRoutes a path =
     (if au_loading a then LoadingView
      else
        (case segments path of
           None \<Rightarrow> NavigateTo ''/''
         | Some [] \<Rightarrow> PageView Home
         | Some [s1] \<Rightarrow>
             if toLowerCase s1 = ''login'' then PageView Login
             else if toLowerCase s1 = ''signup'' then PageView Signup
             else if toLowerCase s1 = ''dashboard'' then ProtectedRoute a (PageView Dashboard)
             else if toLowerCase s1 = ''subscriptions''
               then ProtectedRoute a (PageView Subscriptions)
             else if toLowerCase s1 = ''favorites'' then ProtectedRoute a (PageView Favorites)
             else NavigateTo ''/''
         | Some [s1, s2] \<Rightarrow>
             if toLowerCase s1 = ''podcasts'' then PageView (PodcastDetail s2)
             else if toLowerCase s1 = ''episodes'' then PageView (EpisodePlayer s2)
             else NavigateTo ''/''
         | Some [s1, s2, s3] \<Rightarrow>
             if toLowerCase s1 = ''dashboard'' \<and> toLowerCase s2 = ''podcasts''
                \<and> toLowerCase s3 = ''new''
             then ProtectedRoute a (PageView CreatePodcast)
             else NavigateTo ''/''
         | Some [s1, s2, s3, s4] \<Rightarrow>
             if toLowerCase s1 = ''dashboard'' \<and> toLowerCase s2 = ''podcasts'' \<and> s3 \<noteq> []
                \<and> toLowerCase s4 = ''episodes''
             then ProtectedRoute a (PageView (PodcastEpisodes s3))
             else NavigateTo ''/''
         | Some [s1, s2, s3, s4, s5] \<Rightarrow>
             if toLowerCase s1 = ''dashboard'' \<and> toLowerCase s2 = ''podcasts'' \<and> s3 \<noteq> []
                \<and> toLowerCase s4 = ''episodes'' \<and> toLowerCase s5 = ''new''
             then ProtectedRoute a (PageView (CreateEpisode s3))
             else NavigateTo ''/''
         | _ \<Rightarrow> NavigateTo ''/''))"

text \<open>
  What rendering a view sets off: nothing for the placeholder, the navigation for a
  \<open>Navigate\<close> element, and for a page the actions of its mount effect, \<open>mounts\<close>.
  A page that is not rendered is not mounted.
\<close>

definition view_effects :: "(page \<Rightarrow> user option \<Rightarrow> effect list) \<Rightarrow> auth_ctx \<Rightarrow> view \<Rightarrow> effect list" where
  "view_effects mounts a v =
     (case v of
        LoadingView \<Rightarrow> []
      | NavigateTo target \<Rightarrow> [Navigate target]
      | PageView pg \<Rightarrow> mounts pg (au_user a))"

definition is_request :: "effect \<Rightarrow> bool" where
  "is_request e = (case e of Request _ \<Rightarrow> True | _ \<Rightarrow> False)"

section \<open>Create podcast (CreatePodcast.tsx)\<close>

record podcast_form =
  pf_title :: string
  pf_description :: string

definition podcastSchema :: "podcast_form \<Rightarrow> bool" where
  "podcastSchema frm = (3 \<le> length (pf_title frm) \<and> 10 \<le> length (pf_description frm))"

record cp_state =
  coverImage :: "js_file option"
  coverImagePreview :: "string option"
  cp_isUploading :: bool
  cp_error :: "string option"
  bucketReady :: bool

definition cp_init :: cp_state where
  "cp_init = \<lparr>coverImage = None, coverImagePreview = None, cp_isUploading = False,
              cp_error = None, bucketReady = False\<rparr>"

text \<open>The mount effect only looks for the bucket; it never creates it.\<close>

definition checkBucketExists :: "fault \<Rightarrow> cp_state \<Rightarrow> backend \<Rightarrow> cp_state \<times> backend \<times> effect list" where
  \<open>checkBucketExists list_fault s b =
     (let s0 = s\<lparr>cp_error := None\<rparr>
      in case storage_listBuckets list_fault b of
           (Thrown m, b1) \<Rightarrow>
             (s0\<lparr>cp_error := Some ''Failed to check storage availability. Please try again later.''\<rparr>,
              b1, [Request StorageListBuckets, ConsoleError ''Error checking bucket:''])
         | (Reply listed (Some m), b1) \<Rightarrow>
             (s0\<lparr>cp_error := Some (''Error checking storage buckets: '' @ m)\<rparr>,
              b1, [Request StorageListBuckets, ConsoleError ''Error listing buckets:''])
         | (Reply listed None, b1) \<Rightarrow>
             (let bucketExists = (case listed of None \<Rightarrow> False
                                   | Some bs \<Rightarrow> ''podcast-covers'' \<in> set bs)
              in if \<not> bucketExists then
                   (s0\<lparr>cp_error := Some ''Storage bucket "podcast-covers" not found. Please contact the administrator to set up storage.''\<rparr>,
                    b1, [Request StorageListBuckets])
                 else (s0\<lparr>bucketReady := True\<rparr>, b1, [Request StorageListBuckets])))\<close>

text \<open>\<open>preview\<close> is the object URL the browser hands out for the chosen file.\<close>

definition handleImageChange :: "js_file option \<Rightarrow> string \<Rightarrow> cp_state \<Rightarrow> cp_state" where
  "handleImageChange picked preview s =
     (case picked of
        None \<Rightarrow> s
      | Some f \<Rightarrow>
          if \<not> startsWith (f_type f) ''image/'' then
            s\<lparr>cp_error := Some ''Please upload an image file''\<rparr>
          else if f_size f > 5 * 1024 * 1024 then
            s\<lparr>cp_error := Some ''Image size should be less than 5MB''\<rparr>
          else s\<lparr>coverImage := Some f, coverImagePreview := Some preview, cp_error := None\<rparr>)"

record cp_env =
  cp_rnd :: string
  cp_upload_fault :: fault
  cp_insert_fault :: fault
  cp_new_id :: uuid
  cp_now :: string

definition cp_catch :: "string \<Rightarrow> cp_state \<Rightarrow> cp_state" where
  "cp_catch m s =
     s\<lparr>cp_error := Some (message_or m ''Failed to create podcast''), cp_isUploading := False\<rparr>"

text \<open>The second half of \<open>onSubmit\<close>: the insert of the podcast row and the redirect.\<close>

definition cp_insert ::
    "user \<Rightarrow> podcast_form \<Rightarrow> cp_env \<Rightarrow> string option \<Rightarrow> effect list \<Rightarrow> cp_state \<Rightarrow> backend
       \<Rightarrow> cp_state \<times> backend \<times> effect list" where
  "cp_insert u frm env coverImageUrl tr s1 b =
     (let row = \<lparr>pi_title = pf_title frm, pi_description = pf_description frm,
                 pi_cover_image_url = coverImageUrl, pi_author_id = u_id u\<rparr>;
          ins = Request (DbInsertPodcast row)
      in case db_insert_podcast (Some (u_id u)) row (cp_new_id env) (cp_now env)
                (cp_insert_fault env) b of
           (Thrown m, b2) \<Rightarrow>
             (cp_catch m s1, b2, tr @ [ins, ConsoleError ''Error creating podcast:''])
         | (Reply _ (Some m), b2) \<Rightarrow>
             (cp_catch (''Failed to create podcast: '' @ m) s1, b2,
              tr @ [ins, ConsoleError ''Insert error:'', ConsoleError ''Error creating podcast:''])
         | (Reply None None, b2) \<Rightarrow>
             (cp_catch ''Cannot read properties of null (reading id)'' s1, b2,
              tr @ [ins, ConsoleError ''Error creating podcast:''])
         | (Reply (Some created) None, b2) \<Rightarrow>
             (s1\<lparr>cp_isUploading := False\<rparr>, b2,
              tr @ [ins, Navigate (''/dashboard/podcasts/'' @ p_id created @ ''/episodes'')]))"

definition onSubmit_podcast ::
    "user option \<Rightarrow> podcast_form \<Rightarrow> cp_env \<Rightarrow> cp_state \<Rightarrow> backend
       \<Rightarrow> cp_state \<times> backend \<times> effect list" where
  \<open>onSubmit_podcast usr frm env s b =
     (case usr of
        None \<Rightarrow> (s, b, [])
      | Some u \<Rightarrow>
          (let s1 = s\<lparr>cp_isUploading := True, cp_error := None\<rparr>
           in case coverImage s of
                None \<Rightarrow> cp_insert u frm env None [] s1 b
              | Some img \<Rightarrow>
                  if \<not> bucketReady s then
                    (cp_catch ''Storage is not ready. Please ensure the "podcast-covers" bucket exists in Supabase.'' s1,
                     b, [ConsoleError ''Error creating podcast:''])
                  else
                    (let fileName = cp_rnd env @ ''.'' @ fileExt (f_name img);
                         filePath = u_id u @ ''/'' @ fileName;
                         up = Request (StorageUpload ''podcast-covers'' filePath img)
                     in case storage_upload ''podcast-covers'' filePath img True
                               (cp_upload_fault env) b of
                          (Thrown m, b1) \<Rightarrow>
                            (cp_catch m s1, b1, [up, ConsoleError ''Error creating podcast:''])
                        | (Reply _ (Some m), b1) \<Rightarrow>
                            (cp_catch (''Image upload failed: '' @ m) s1, b1,
                             [up, ConsoleError ''Upload error:'',
                              ConsoleError ''Error creating podcast:''])
                        | (Reply _ None, b1) \<Rightarrow>
                            cp_insert u frm env (Some (getPublicUrl ''podcast-covers'' filePath))
                              [up] s1 b1)))\<close>

section \<open>Predicates of the specification\<close>

text \<open>An audio file as the form accepts it: an audio mime type and at most 100 MB.\<close>

definition accepted_audio :: "js_file \<Rightarrow> bool" where
  "accepted_audio f = (startsWith (f_type f) ''audio/'' \<and> f_size f \<le> 100 * 1024 * 1024)"

text \<open>
  The foreign keys of the join tables, which the store maintains: a favorite refers to an
  existing episode, a subscription to an existing podcast.
\<close>

definition favorites_fk :: "backend \<Rightarrow> bool" where
  "favorites_fk b = (\<forall>r \<in> favorites b. snd r \<in> set (map e_id (episodes b)))"

definition subscriptions_fk :: "backend \<Rightarrow> bool" where
  "subscriptions_fk b = (\<forall>r \<in> subscriptions b. snd r \<in> set (map p_id (podcasts b)))"


text \<open>The podcast with the given id belongs to the given author.\<close>

definition owned_by :: "backend \<Rightarrow> uuid \<Rightarrow> uuid \<Rightarrow> bool" where
  "owned_by b pid uid = (\<forall>p \<in> set (podcasts b). p_id p = pid \<longrightarrow> p_author_id p = uid)"

text \<open>
  Every episode with the given id belongs to a podcast of the given author: the rows the
  policy lets that author delete.
\<close>

definition episode_owned_by :: "backend \<Rightarrow> uuid \<Rightarrow> uuid \<Rightarrow> bool" where
  "episode_owned_by b eid uid =
     (\<forall>e \<in> set (episodes b). e_id e = eid \<longrightarrow> owns_episode (Some uid) b (e_podcast_id e))"

section \<open>Concrete inputs\<close>

text \<open>
  A small world used to run the handlers: the author \<open>u1\<close> with the podcast \<open>p1\<close>,
  another author \<open>u2\<close> with the podcast \<open>p2\<close>, and the audio bucket.
\<close>

definition ex_user :: user where
  "ex_user = \<lparr>u_id = ''u1''\<rparr>"

definition ex_podcast :: podcast where
  "ex_podcast = \<lparr>p_id = ''p1'', p_title = ''Test Show'', p_description = ''A show about tests'',
                  p_cover_image_url = None, p_author_id = ''u1'', p_created_at = ''t0'',
                  p_updated_at = ''t0''\<rparr>"

definition ex_other_podcast :: podcast where
  "ex_other_podcast = \<lparr>p_id = ''p2'', p_title = ''Other Show'', p_description = ''Somebody else talks'',
                        p_cover_image_url = None, p_author_id = ''u2'', p_created_at = ''t0'',
                        p_updated_at = ''t0''\<rparr>"

definition ex_episode :: "int \<Rightarrow> episode" where
  "ex_episode d = \<lparr>e_id = ''e1'', e_podcast_id = ''p1'', e_title = ''Pilot'',
                    e_description = ''The first episode'',
                    e_audio_url = ''/storage/v1/object/public/podcast-audio/p1/k3j9x.mp3'',
                    e_duration = d, e_published_at = ''2024-01-01T00:00:00.000Z'',
                    e_created_at = ''t1''\<rparr>"

definition ex_backend :: backend where
  "ex_backend = \<lparr>podcasts = [ex_podcast, ex_other_podcast], episodes = [], subscriptions = {},
                  favorites = {}, buckets = [''podcast-audio''], objects = []\<rparr>"

text \<open>The same world with one episode and given join tables.\<close>

definition ex_store :: "(uuid \<times> uuid) set \<Rightarrow> (uuid \<times> uuid) set \<Rightarrow> backend" where
  "ex_store subs favs = \<lparr>podcasts = [ex_podcast, ex_other_podcast], episodes = [ex_episode 300],
                          subscriptions = subs, favorites = favs, buckets = [''podcast-audio''],
                          objects = []\<rparr>"

definition ex_form :: episode_form where
  "ex_form = \<lparr>ef_title = ''Pilot'', ef_description = ''The first episode'',
               ef_publishedAt = ''2024-01-01''\<rparr>"

definition ex_env :: "audio_event \<Rightarrow> submit_env" where
  "ex_env ev = \<lparr>rnd = ''k3j9x'', probe = ev, upload_fault = NoFault,
                 published_iso = Some ''2024-01-01T00:00:00.000Z'', insert_fault = NoFault,
                 new_id = ''e1'', now = ''t1''\<rparr>"

definition ex_audio :: "nat \<Rightarrow> js_file" where
  "ex_audio n = \<lparr>f_name = ''a.mp3'', f_type = ''audio/mpeg'', f_size = n\<rparr>"

definition ex_events :: "nat \<Rightarrow> ce_event list" where
  "ex_events n = [Mount (Some ''p1'') NoFault NoFault NoFault, AudioChange (Some (ex_audio n))]"

definition ex_ready :: "nat \<Rightarrow> ce_state" where
  "ex_ready n = \<lparr>ce_podcast = Some ex_podcast, audioFile = Some (ex_audio n), isUploading = False,
                  uploadProgress = 0, ce_error = None\<rparr>"

definition ex_row :: "int \<Rightarrow> episode_insert" where
  "ex_row d = \<lparr>ei_podcast_id = ''p1'', ei_title = ''Pilot'', ei_description = ''The first episode'',
                ei_audio_url = ''/storage/v1/object/public/podcast-audio/p1/k3j9x.mp3'',
                ei_duration = d, ei_published_at = ''2024-01-01T00:00:00.000Z''\<rparr>"

definition ex_submit_trace :: "nat \<Rightarrow> int \<Rightarrow> effect list" where
  "ex_submit_trace n d =
     [Request (StorageUpload ''podcast-audio'' ''p1/k3j9x.mp3'' (ex_audio n)),
      Request (DbInsertEpisode (ex_row d)),
      Navigate ''/dashboard/podcasts/p1/episodes'']"

definition ex_stored :: "int \<Rightarrow> backend" where
  "ex_stored d = ex_backend\<lparr>episodes := [ex_episode d],
                            objects := [(''podcast-audio'', ''p1/k3j9x.mp3'')]\<rparr>"

definition ex_player :: "bool \<Rightarrow> player_state" where
  "ex_player fav = \<lparr>pl_episode = Some (ex_episode 300), isFavorite = fav\<rparr>"

definition ex_dash :: dash_state where
  "ex_dash = \<lparr>d_podcasts = [ex_podcast], d_loading = False, d_error = None\<rparr>"

definition ex_episodes_page :: episodes_state where
  "ex_episodes_page = \<lparr>pe_podcast = Some ex_podcast, pe_episodes = [ex_episode 300]\<rparr>"

definition ex_podcast_form :: podcast_form where
  "ex_podcast_form = \<lparr>pf_title = ''Test Show'', pf_description = ''A show about tests''\<rparr>"

definition ex_cp_env :: cp_env where
  "ex_cp_env = \<lparr>cp_rnd = ''z81kq'', cp_upload_fault = NoFault, cp_insert_fault = NoFault,
                 cp_new_id = ''p3'', cp_now = ''t2''\<rparr>"

definition ex_cover :: js_file where
  "ex_cover = \<lparr>f_name = ''cover.png'', f_type = ''image/png'', f_size = 2048\<rparr>"

definition ex_anonymous :: auth_ctx where
  "ex_anonymous = \<lparr>au_user = None, au_loading = False\<rparr>"

definition ex_no_buckets :: backend where
  "ex_no_buckets = ex_backend\<lparr>buckets := []\<rparr>"

definition ex_covers_only :: backend where
  "ex_covers_only = ex_backend\<lparr>buckets := [''podcast-covers'']\<rparr>"

definition ex_cover_row :: "string option \<Rightarrow> podcast_insert" where
  "ex_cover_row url = \<lparr>pi_title = ''Test Show'', pi_description = ''A show about tests'',
                        pi_cover_image_url = url, pi_author_id = ''u1''\<rparr>"

definition ex_new_podcast :: "string option \<Rightarrow> podcast" where
  "ex_new_podcast url = \<lparr>p_id = ''p3'', p_title = ''Test Show'',
                          p_description = ''A show about tests'', p_cover_image_url = url,
                          p_author_id = ''u1'', p_created_at = ''t2'', p_updated_at = ''t2''\<rparr>"

text \<open>
  The create-episode page is mounted while storage refuses to create a bucket, and a file
  is chosen.
\<close>

definition ex_refused_events :: "ce_event list" where
  "ex_refused_events =
     [Mount (Some ''p1'') NoFault NoFault (StoreError ''not allowed''),
      AudioChange (Some (ex_audio 2048))]"

definition ex_both_buckets :: backend where
  "ex_both_buckets = ex_backend\<lparr>buckets := [''podcast-covers'', ''podcast-audio'']\<rparr>"

text \<open>A page whose mount effect queries the store at once, whoever the user is.\<close>

definition ex_eager_mounts :: "page \<Rightarrow> user option \<Rightarrow> effect list" where
  "ex_eager_mounts pg usr = [Request (DbSelect ''podcasts'' ''all'')]"

section \<open>Create episode: the duration of an episode\<close>

lemma Math_round_fallback:
  "Math_round (of_nat n / (1024 * 1024) * 60) = (120 * int n + 1048576) div 2097152"
proof -
  have "(of_nat n / (1024 * 1024) * 60 + 1 / 2 :: rat)
          = of_int (120 * int n + 1048576) / of_int 2097152"
    by (simp add: field_simps)
  then show ?thesis
    unfolding Math_round_def by (simp only: floor_divide_of_int_eq)
qed

lemma getAudioDuration_error:
  "getAudioDuration f ErrorEvent = Some (Seconds ((120 * int (f_size f) + 1048576) div 2097152))"
  by (simp only: getAudioDuration_def Let_def audio_event.simps Math_round_fallback)

lemma Math_round_pos: "0 < Math_round d \<longleftrightarrow> 1 / 2 \<le> d"
proof -
  have "0 < \<lfloor>d + 1 / 2\<rfloor> \<longleftrightarrow> of_int 0 + 1 \<le> d + 1 / 2"
    by (rule less_floor_iff)
  also have "\<dots> \<longleftrightarrow> 1 / 2 \<le> d" by auto
  finally show ?thesis unfolding Math_round_def .
qed

lemma Math_round_nonneg: "0 \<le> d \<Longrightarrow> 0 \<le> Math_round d"
  unfolding Math_round_def by simp




lemma onSubmit_episode_upload:
  assumes "onSubmit_episode usr frm env s b = (s', b', tr)"
    and "Request (StorageUpload bkt path f) \<in> set tr"
  shows "audioFile s = Some f \<and> bkt = ''podcast-audio''"
  using assms
  by (auto simp: onSubmit_episode_def ce_inserted_def Let_def
      split: option.splits prod.splits reply.splits js_duration.splits)

lemma onSubmit_episode_insert:
  assumes "onSubmit_episode usr frm env s b = (s', b', tr)"
    and "Request (DbInsertEpisode row) \<in> set tr"
  shows "\<exists>af. audioFile s = Some af
           \<and> getAudioDuration af (probe env) = Some (Seconds (ei_duration row))"
  using assms
  by (auto simp: onSubmit_episode_def ce_inserted_def Let_def
      split: option.splits prod.splits reply.splits js_duration.splits)


lemma db_insert_episode_null_backend:
  "snd (db_insert_episode_null flt b) = b"
  by (cases flt) (simp_all add: db_insert_episode_null_def served_def)


lemma ce_inserted_result:
  assumes "ce_inserted pod tr0 s1 rb = (s', b', tr)"
  shows "b' = snd rb" and "set tr0 \<subseteq> set tr"
  using assms
  by (auto simp: ce_inserted_def split: prod.splits reply.splits option.splits)





lemma ex_submit_fallback_5MB:
  "onSubmit_episode (Some ex_user) ex_form (ex_env ErrorEvent) (ex_ready 5242880) ex_backend
     = (ex_ready 5242880, ex_stored 300, ex_submit_trace 5242880 300)"
  by (simp add: onSubmit_episode_def ce_inserted_def getAudioDuration_error storage_upload_def
      db_insert_episode_def owns_episode_def served_def getPublicUrl_def fileExt_def Let_def
      ex_user_def ex_podcast_def ex_other_podcast_def ex_episode_def ex_backend_def ex_form_def
      ex_env_def ex_audio_def ex_ready_def ex_row_def ex_submit_trace_def ex_stored_def)


section \<open>Create episode: what reaches the upload\<close>

lemma onSubmit_episode_audioFile:
  "onSubmit_episode usr frm env s b = (s', b', tr) \<Longrightarrow> audioFile s' = audioFile s"
  by (auto simp: onSubmit_episode_def ce_inserted_def Let_def ce_catch_def
      split: option.splits prod.splits reply.splits js_duration.splits)

lemma ce_mount_audioFile:
  "ce_mount usr pid f1 f2 f3 s b = (s', b', tr) \<Longrightarrow> audioFile s' = audioFile s"
  by (auto simp: ce_mount_def ce_fetchPodcast_def Let_def
      split: option.splits prod.splits reply.splits if_splits)

lemma handleAudioChange_accepts:
  "audioFile (handleAudioChange picked s) = Some f \<Longrightarrow> audioFile s = Some f \<or> accepted_audio f"
  by (auto simp: handleAudioChange_def accepted_audio_def split: option.splits if_splits)

lemma ce_step_audioFile:
  assumes "ce_step usr (s, b, tr) ev = (s', b', tr')"
    and "\<forall>f. audioFile s = Some f \<longrightarrow> accepted_audio f"
  shows "\<forall>f. audioFile s' = Some f \<longrightarrow> accepted_audio f"
proof (cases ev)
  case (Mount pid f1 f2 f3)
  then show ?thesis using assms
    by (auto simp: ce_step_def split: prod.splits dest: ce_mount_audioFile)
next
  case (AudioChange picked)
  then show ?thesis using assms
    by (auto simp: ce_step_def dest: handleAudioChange_accepts)
next
  case (Submit frm env)
  then show ?thesis using assms
    by (auto simp: ce_step_def split: prod.splits if_splits dest: onSubmit_episode_audioFile)
qed

text \<open>
  Whatever the user and the environment did since the component was created, the file it
  holds passed the checks of \<open>handleAudioChange\<close>.
\<close>

lemma ce_run_audioFile:
  "ce_run usr b0 evs = (s, b, tr) \<Longrightarrow> audioFile s = Some f \<Longrightarrow> accepted_audio f"
proof (induction evs arbitrary: s b tr f rule: rev_induct)
  case Nil
  then show ?case by (auto simp: ce_run_def ce_init_def)
next
  case (snoc ev evs)
  obtain s0 b1 tr1 where prev: "ce_run usr b0 evs = (s0, b1, tr1)"
    by (cases "ce_run usr b0 evs") auto
  with snoc.prems have step: "ce_step usr (s0, b1, tr1) ev = (s, b, tr)"
    by (simp add: ce_run_def)
  have "\<forall>g. audioFile s0 = Some g \<longrightarrow> accepted_audio g"
    using snoc.IH [OF prev] by blast
  from ce_step_audioFile [OF step this] snoc.prems(2) show ?case by blast
qed

text \<open>
  Claim C1 (amended). In any state the create-episode form can reach, a submission (against
  any state of the backend) uploads only a file whose mime type starts with \<open>audio/\<close> and whose size is at most
  \<open>100 * 1024 * 1024\<close> bytes. The duration it inserts is not always positive: with the
  size-based estimate it is never negative and is positive exactly when the file has at
  least 8739 bytes; with a duration reported by the audio element it is positive exactly
  when the report is at least half a second (and never negative for a report that is not
  negative).
\<close>

theorem create_episode_upload_checked:
  assumes "ce_run usr b0 evs = (s, b, tr0)"
    and "onSubmit_episode usr' frm env s c = (s', c', tr)"
  shows "(\<forall>bkt path f. Request (StorageUpload bkt path f) \<in> set tr \<longrightarrow>
            startsWith (f_type f) ''audio/'' \<and> f_size f \<le> 100 * 1024 * 1024)
       \<and> (\<forall>row. Request (DbInsertEpisode row) \<in> set tr \<longrightarrow>
            (\<exists>af. audioFile s = Some af
               \<and> (probe env = ErrorEvent \<longrightarrow>
                    0 \<le> ei_duration row \<and> (0 < ei_duration row \<longleftrightarrow> 8739 \<le> f_size af))
               \<and> (\<forall>d. probe env = LoadedMetadata d \<longrightarrow>
                    (0 \<le> d \<longrightarrow> 0 \<le> ei_duration row)
                    \<and> (0 < ei_duration row \<longleftrightarrow> 1 / 2 \<le> d))))"
proof (intro conjI allI impI)
  fix bkt path f
  assume "Request (StorageUpload bkt path f) \<in> set tr"
  with assms(2) have "audioFile s = Some f" by (blast dest: onSubmit_episode_upload)
  with assms(1) have "accepted_audio f" by (rule ce_run_audioFile)
  then show "startsWith (f_type f) ''audio/''" and "f_size f \<le> 100 * 1024 * 1024"
    by (simp_all add: accepted_audio_def)
next
  fix row
  assume "Request (DbInsertEpisode row) \<in> set tr"
  with assms(2) obtain af where af: "audioFile s = Some af"
      and dur: "getAudioDuration af (probe env) = Some (Seconds (ei_duration row))"
    by (blast dest: onSubmit_episode_insert)
  have e: "probe env = ErrorEvent \<longrightarrow>
             0 \<le> ei_duration row \<and> (0 < ei_duration row \<longleftrightarrow> 8739 \<le> f_size af)"
    using dur by (auto simp: getAudioDuration_error)
  have m: "\<forall>d. probe env = LoadedMetadata d \<longrightarrow>
             (0 \<le> d \<longrightarrow> 0 \<le> ei_duration row) \<and> (0 < ei_duration row \<longleftrightarrow> 1 / 2 \<le> d)"
  proof (intro allI impI)
    fix d assume "probe env = LoadedMetadata d"
    with dur have "ei_duration row = Math_round d" by (simp add: getAudioDuration_def)
    then show "(0 \<le> d \<longrightarrow> 0 \<le> ei_duration row) \<and> (0 < ei_duration row \<longleftrightarrow> 1 / 2 \<le> d)"
      using Math_round_pos [of d] Math_round_nonneg [of d] by simp
  qed
  from af e m
  show "\<exists>af. audioFile s = Some af
          \<and> (probe env = ErrorEvent \<longrightarrow>
               0 \<le> ei_duration row \<and> (0 < ei_duration row \<longleftrightarrow> 8739 \<le> f_size af))
          \<and> (\<forall>d. probe env = LoadedMetadata d \<longrightarrow>
               (0 \<le> d \<longrightarrow> 0 \<le> ei_duration row) \<and> (0 < ei_duration row \<longleftrightarrow> 1 / 2 \<le> d))"
    by blast
qed

lemma ex_reach:
  "n \<le> 100 * 1024 * 1024 \<Longrightarrow>
   ce_run (Some ex_user) ex_backend (ex_events n) =
     (ex_ready n, ex_backend, [Request (DbSelect ''podcasts'' ''p1''), Request StorageListBuckets])"
  by (simp add: ce_run_def ce_step_def ce_mount_def ce_fetchPodcast_def createStorageBucket_def
      handleAudioChange_def ce_init_def startsWith_def db_select_podcast_single_def
      storage_listBuckets_def served_def
      ex_user_def ex_podcast_def ex_other_podcast_def ex_backend_def ex_events_def ex_audio_def
      ex_ready_def)

text \<open>
  A 5 MB audio file, chosen after the page has loaded and submitted while the audio element
  fails: the file passes both checks and the estimate is 300 seconds.
\<close>

theorem create_episode_upload_checked_witness:
  "ce_run (Some ex_user) ex_backend (ex_events 5242880) =
     (ex_ready 5242880, ex_backend,
      [Request (DbSelect ''podcasts'' ''p1''), Request StorageListBuckets])
   \<and> onSubmit_episode (Some ex_user) ex_form (ex_env ErrorEvent) (ex_ready 5242880) ex_backend
       = (ex_ready 5242880, ex_stored 300, ex_submit_trace 5242880 300)
   \<and> startsWith (f_type (ex_audio 5242880)) ''audio/''
   \<and> f_size (ex_audio 5242880) \<le> 100 * 1024 * 1024
   \<and> 0 < ei_duration (ex_row 300)"
proof -
  have h1: "ce_run (Some ex_user) ex_backend (ex_events 5242880) =
     (ex_ready 5242880, ex_backend,
      [Request (DbSelect ''podcasts'' ''p1''), Request StorageListBuckets])"
    by (rule ex_reach) simp
  note checked = create_episode_upload_checked [OF h1 ex_submit_fallback_5MB]
  have up: "Request (StorageUpload ''podcast-audio'' ''p1/k3j9x.mp3'' (ex_audio 5242880))
              \<in> set (ex_submit_trace 5242880 300)"
    by (simp add: ex_submit_trace_def)
  have ins: "Request (DbInsertEpisode (ex_row 300)) \<in> set (ex_submit_trace 5242880 300)"
    by (simp add: ex_submit_trace_def)
  from checked up have a: "startsWith (f_type (ex_audio 5242880)) ''audio/''
      \<and> f_size (ex_audio 5242880) \<le> 100 * 1024 * 1024"
    by blast
  from checked ins have "\<exists>af. audioFile (ex_ready 5242880) = Some af
      \<and> (probe (ex_env ErrorEvent) = ErrorEvent \<longrightarrow>
           0 \<le> ei_duration (ex_row 300) \<and> (0 < ei_duration (ex_row 300) \<longleftrightarrow> 8739 \<le> f_size af))"
    by blast
  then have b: "0 < ei_duration (ex_row 300)"
    by (simp add: ex_ready_def ex_env_def ex_audio_def)
  from h1 ex_submit_fallback_5MB a b show ?thesis by blast
qed

lemma ex_submit_empty:
  "onSubmit_episode (Some ex_user) ex_form (ex_env ErrorEvent) (ex_ready 0) ex_backend
     = (ex_ready 0, ex_stored 0, ex_submit_trace 0 0)"
  by (simp add: onSubmit_episode_def ce_inserted_def getAudioDuration_error storage_upload_def
      db_insert_episode_def owns_episode_def served_def getPublicUrl_def fileExt_def Let_def
      ex_user_def ex_podcast_def ex_other_podcast_def ex_episode_def ex_backend_def ex_form_def
      ex_env_def ex_audio_def ex_ready_def ex_row_def ex_submit_trace_def ex_stored_def)

lemma Math_round_fraction:
  assumes "0 < q"
  shows "Math_round (of_int p / of_int q) = (2 * p + q) div (2 * q)"
proof -
  from assms have "(of_int p / of_int q + 1 / 2 :: rat) = of_int (2 * p + q) / of_int (2 * q)"
    by (simp add: field_simps)
  then show ?thesis
    unfolding Math_round_def by (simp only: floor_divide_of_int_eq)
qed

lemma Math_round_short_clip: "Math_round (3 / 10) = 0"
  using Math_round_fraction [of 10 3] by simp

lemma ex_submit_short_clip:
  "onSubmit_episode (Some ex_user) ex_form (ex_env (LoadedMetadata (3 / 10))) (ex_ready 4096)
     ex_backend = (ex_ready 4096, ex_stored 0, ex_submit_trace 4096 0)"
  by (simp add: onSubmit_episode_def ce_inserted_def getAudioDuration_def Math_round_short_clip storage_upload_def
      db_insert_episode_def owns_episode_def served_def getPublicUrl_def fileExt_def Let_def
      ex_user_def ex_podcast_def ex_other_podcast_def ex_episode_def ex_backend_def ex_form_def
      ex_env_def ex_audio_def ex_ready_def ex_row_def ex_submit_trace_def ex_stored_def)

text \<open>
  An empty file named \<open>a.mp3\<close> has an audio mime type and passes the size check. The
  audio element cannot decode it and fires \<open>error\<close>; the submission uploads the file and
  inserts an episode whose duration is 0. So does the submission of a clip for which the
  audio element reports 0.3 seconds.
\<close>

theorem create_episode_zero_duration:
  "fst (ce_run (Some ex_user) ex_backend (ex_events 0)) = ex_ready 0
   \<and> onSubmit_episode (Some ex_user) ex_form (ex_env ErrorEvent) (ex_ready 0) ex_backend
       = (ex_ready 0, ex_stored 0,
          [Request (StorageUpload ''podcast-audio'' ''p1/k3j9x.mp3'' (ex_audio 0)),
           Request (DbInsertEpisode (ex_row 0)),
           Navigate ''/dashboard/podcasts/p1/episodes''])
   \<and> onSubmit_episode (Some ex_user) ex_form (ex_env (LoadedMetadata (3 / 10))) (ex_ready 4096)
       ex_backend
       = (ex_ready 4096, ex_stored 0,
          [Request (StorageUpload ''podcast-audio'' ''p1/k3j9x.mp3'' (ex_audio 4096)),
           Request (DbInsertEpisode (ex_row 0)),
           Navigate ''/dashboard/podcasts/p1/episodes''])
   \<and> e_duration (ex_episode 0) = 0
   \<and> \<not> 0 < ei_duration (ex_row 0)"
proof -
  have "ce_run (Some ex_user) ex_backend (ex_events 0) =
     (ex_ready 0, ex_backend, [Request (DbSelect ''podcasts'' ''p1''), Request StorageListBuckets])"
    by (rule ex_reach) simp
  then show ?thesis
    by (simp add: ex_submit_empty ex_submit_short_clip)
       (simp add: ex_submit_trace_def ex_row_def ex_episode_def)
qed

section \<open>The favorite and subscribe toggles\<close>

text \<open>
  Claim C4. For a signed-in user on a loaded episode the favorite toggle sends a delete of
  the \<open>(user, episode)\<close> row when the flag is set and an insert of it when the flag is
  clear. Once the call resolves, with or without an error value, the flag is flipped and
  nothing else happens. When the awaited call throws, the flag keeps its value and the
  error is logged. No path restores a flipped flag.
\<close>

theorem favorite_toggle_calls:
  assumes "usr = Some u" and "pl_episode s = Some ep"
  shows "((\<forall>m. flt \<noteq> ClientThrow m) \<longrightarrow>
           handleFavorite usr flt s b =
             (s\<lparr>isFavorite := \<not> isFavorite s\<rparr>,
              snd ((if isFavorite s then db_delete_favorite else db_insert_favorite)
                     (Some (u_id u)) (e_id ep) (u_id u) flt b),
              [Request ((if isFavorite s then DbDeleteJoin else DbInsertJoin)
                          ''favorites'' (e_id ep) (u_id u))]))
       \<and> (\<forall>m. flt = ClientThrow m \<longrightarrow>
           handleFavorite usr flt s b =
             (s, b,
              [Request ((if isFavorite s then DbDeleteJoin else DbInsertJoin)
                          ''favorites'' (e_id ep) (u_id u)),
               ConsoleError ''Error updating favorites:'']))"
  using assms
  by (cases flt)
     (auto simp: handleFavorite_def served_def db_insert_favorite_def db_delete_favorite_def
        split: prod.splits reply.splits)

text \<open>
  The user \<open>u1\<close> marks the episode \<open>e1\<close>: the insert is sent, the row is stored and
  the flag is set.
\<close>

theorem favorite_toggle_calls_witness:
  "Some ex_user = Some ex_user \<and> pl_episode (ex_player False) = Some (ex_episode 300)
   \<and> handleFavorite (Some ex_user) NoFault (ex_player False) (ex_store {} {})
       = (ex_player True, ex_store {} {(''u1'', ''e1'')},
          [Request (DbInsertJoin ''favorites'' ''e1'' ''u1'')])
   \<and> handleFavorite (Some ex_user) (ClientThrow ''offline'') (ex_player True) (ex_store {} {})
       = (ex_player True, ex_store {} {},
          [Request (DbDeleteJoin ''favorites'' ''e1'' ''u1''),
           ConsoleError ''Error updating favorites:''])"
proof -
  have h2: "pl_episode (ex_player False) = Some (ex_episode 300)"
    and h2': "pl_episode (ex_player True) = Some (ex_episode 300)"
    by (simp_all add: ex_player_def)
  from favorite_toggle_calls [where usr = "Some ex_user" and u = ex_user and flt = NoFault
      and b = "ex_store {} {}", OF refl h2]
  have 1: "handleFavorite (Some ex_user) NoFault (ex_player False) (ex_store {} {})
       = (ex_player True, ex_store {} {(''u1'', ''e1'')},
          [Request (DbInsertJoin ''favorites'' ''e1'' ''u1'')])"
    by (simp add: db_insert_favorite_def served_def ex_player_def ex_store_def ex_episode_def
        ex_user_def)
  from favorite_toggle_calls [where usr = "Some ex_user" and u = ex_user
      and flt = "ClientThrow ''offline''" and b = "ex_store {} {}", OF refl h2']
  have 2: "handleFavorite (Some ex_user) (ClientThrow ''offline'') (ex_player True) (ex_store {} {})
       = (ex_player True, ex_store {} {},
          [Request (DbDeleteJoin ''favorites'' ''e1'' ''u1''),
           ConsoleError ''Error updating favorites:''])"
    by (simp add: ex_player_def ex_episode_def ex_user_def)
  from h2 1 2 show ?thesis by simp
qed

lemma favorite_twice:
  assumes "usr = Some u" and "pl_episode s = Some ep"
    and "isFavorite s \<longleftrightarrow> (u_id u, e_id ep) \<in> favorites b"
    and "favorites_fk b"
    and "handleFavorite usr NoFault s b = (s1, b1, tr1)"
    and "handleFavorite usr NoFault s1 b1 = (s2, b2, tr2)"
  shows "s2 = s \<and> b2 = b"
proof (cases "isFavorite s")
  case True
  with assms(3) have mem: "(u_id u, e_id ep) \<in> favorites b" by simp
  with assms(4) have fk: "e_id ep \<in> set (map e_id (episodes b))"
    by (force simp: favorites_fk_def)
  from True assms(1,2,5) have s1: "s1 = s\<lparr>isFavorite := False\<rparr>"
      and b1: "b1 = b\<lparr>favorites := favorites b - {(u_id u, e_id ep)}\<rparr>"
    by (auto simp: handleFavorite_def served_def db_delete_favorite_def)
  from assms(1,2,6) fk mem True have "s2 = s" and "b2 = b"
    unfolding s1 b1
    by (auto simp: handleFavorite_def served_def db_insert_favorite_def insert_absorb)
  then show ?thesis by simp
next
  case False
  with assms(3) have nmem: "(u_id u, e_id ep) \<notin> favorites b" by simp
  show ?thesis
  proof (cases "e_id ep \<in> set (map e_id (episodes b))")
    case True
    from False True nmem assms(1,2,5) have s1: "s1 = s\<lparr>isFavorite := True\<rparr>"
        and b1: "b1 = b\<lparr>favorites := insert (u_id u, e_id ep) (favorites b)\<rparr>"
      by (auto simp: handleFavorite_def served_def db_insert_favorite_def)
    from assms(1,2,6) nmem False have "s2 = s" and "b2 = b"
      unfolding s1 b1 by (auto simp: handleFavorite_def served_def db_delete_favorite_def)
    then show ?thesis by simp
  next
    case nofk: False
    from False nofk assms(1,2,5) have s1: "s1 = s\<lparr>isFavorite := True\<rparr>" and b1: "b1 = b"
      by (auto simp: handleFavorite_def served_def db_insert_favorite_def)
    from assms(1,2,6) nmem False have "s2 = s" and "b2 = b"
      unfolding s1 b1 by (auto simp: handleFavorite_def served_def db_delete_favorite_def)
    then show ?thesis by simp
  qed
qed

lemma subscribe_twice:
  assumes "usr = Some u"
    and "isSubscribed s \<longleftrightarrow> (u_id u, ident) \<in> subscriptions b"
    and "subscriptions_fk b"
    and "handleSubscribe usr ident NoFault s b = (s1, b1, tr1)"
    and "handleSubscribe usr ident NoFault s1 b1 = (s2, b2, tr2)"
  shows "s2 = s \<and> b2 = b"
proof (cases "isSubscribed s")
  case True
  with assms(2) have mem: "(u_id u, ident) \<in> subscriptions b" by simp
  with assms(3) have fk: "ident \<in> set (map p_id (podcasts b))"
    by (force simp: subscriptions_fk_def)
  from True assms(1,4) have s1: "s1 = s\<lparr>isSubscribed := False\<rparr>"
      and b1: "b1 = b\<lparr>subscriptions := subscriptions b - {(u_id u, ident)}\<rparr>"
    by (auto simp: handleSubscribe_def served_def db_delete_subscription_def)
  from assms(1,5) fk mem True have "s2 = s" and "b2 = b"
    unfolding s1 b1
    by (auto simp: handleSubscribe_def served_def db_insert_subscription_def insert_absorb)
  then show ?thesis by simp
next
  case False
  with assms(2) have nmem: "(u_id u, ident) \<notin> subscriptions b" by simp
  show ?thesis
  proof (cases "ident \<in> set (map p_id (podcasts b))")
    case True
    from False True nmem assms(1,4) have s1: "s1 = s\<lparr>isSubscribed := True\<rparr>"
        and b1: "b1 = b\<lparr>subscriptions := insert (u_id u, ident) (subscriptions b)\<rparr>"
      by (auto simp: handleSubscribe_def served_def db_insert_subscription_def)
    from assms(1,5) nmem False have "s2 = s" and "b2 = b"
      unfolding s1 b1 by (auto simp: handleSubscribe_def served_def db_delete_subscription_def)
    then show ?thesis by simp
  next
    case nofk: False
    from False nofk assms(1,4) have s1: "s1 = s\<lparr>isSubscribed := True\<rparr>" and b1: "b1 = b"
      by (auto simp: handleSubscribe_def served_def db_insert_subscription_def)
    from assms(1,5) nmem False have "s2 = s" and "b2 = b"
      unfolding s1 b1 by (auto simp: handleSubscribe_def served_def db_delete_subscription_def)
    then show ?thesis by simp
  qed
qed

text \<open>
  Claim C2 (amended). Provided the local flag agrees with the join table when the first
  toggle starts, and the store serves both calls, two successive favorite toggles (resp.
  subscribe toggles) return the join table, the rest of the store and the local flag to
  their original state; in particular favorite followed by unfavorite leaves no
  \<open>(user, episode)\<close> row. Nothing is claimed for a flag that disagrees with the table or
  for a call that the store or the network fails.
\<close>

theorem toggle_twice_round_trip:
  assumes "usr = Some u"
  shows "(pl_episode s = Some ep
          \<and> (isFavorite s \<longleftrightarrow> (u_id u, e_id ep) \<in> favorites b) \<and> favorites_fk b
          \<and> handleFavorite usr NoFault s b = (s1, b1, tr1)
          \<and> handleFavorite usr NoFault s1 b1 = (s2, b2, tr2)
          \<longrightarrow> s2 = s \<and> b2 = b \<and> (\<not> isFavorite s \<longrightarrow> (u_id u, e_id ep) \<notin> favorites b2))
       \<and> ((isSubscribed d \<longleftrightarrow> (u_id u, ident) \<in> subscriptions c) \<and> subscriptions_fk c
          \<and> handleSubscribe usr ident NoFault d c = (d1, c1, tr3)
          \<and> handleSubscribe usr ident NoFault d1 c1 = (d2, c2, tr4)
          \<longrightarrow> d2 = d \<and> c2 = c \<and> (\<not> isSubscribed d \<longrightarrow> (u_id u, ident) \<notin> subscriptions c2))"
proof (intro conjI impI)
  assume a: "pl_episode s = Some ep
          \<and> (isFavorite s \<longleftrightarrow> (u_id u, e_id ep) \<in> favorites b) \<and> favorites_fk b
          \<and> handleFavorite usr NoFault s b = (s1, b1, tr1)
          \<and> handleFavorite usr NoFault s1 b1 = (s2, b2, tr2)"
  with assms have r: "s2 = s \<and> b2 = b"
    using favorite_twice [of usr u s ep b s1 b1 tr1 s2 b2 tr2] by blast
  then show "s2 = s" and "b2 = b" by simp_all
  assume "\<not> isFavorite s"
  with a r show "(u_id u, e_id ep) \<notin> favorites b2" by simp
next
  assume a: "(isSubscribed d \<longleftrightarrow> (u_id u, ident) \<in> subscriptions c) \<and> subscriptions_fk c
          \<and> handleSubscribe usr ident NoFault d c = (d1, c1, tr3)
          \<and> handleSubscribe usr ident NoFault d1 c1 = (d2, c2, tr4)"
  with assms have r: "d2 = d \<and> c2 = c"
    using subscribe_twice [of usr u d ident c d1 c1 tr3 d2 c2 tr4] by blast
  then show "d2 = d" and "c2 = c" by simp_all
  assume "\<not> isSubscribed d"
  with a r show "(u_id u, ident) \<notin> subscriptions c2" by simp
qed

lemma ex_favorite_on:
  "handleFavorite (Some ex_user) NoFault (ex_player False) (ex_store {} {})
     = (ex_player True, ex_store {} {(''u1'', ''e1'')},
        [Request (DbInsertJoin ''favorites'' ''e1'' ''u1'')])"
  by (simp add: handleFavorite_def db_insert_favorite_def served_def ex_player_def ex_store_def
      ex_episode_def ex_user_def)

lemma ex_favorite_off:
  "handleFavorite (Some ex_user) NoFault (ex_player True) (ex_store {} {(''u1'', ''e1'')})
     = (ex_player False, ex_store {} {},
        [Request (DbDeleteJoin ''favorites'' ''e1'' ''u1'')])"
  by (simp add: handleFavorite_def db_delete_favorite_def served_def ex_player_def ex_store_def
      ex_episode_def ex_user_def)

lemma ex_subscribe_on:
  "handleSubscribe (Some ex_user) ''p2'' NoFault \<lparr>isSubscribed = False\<rparr> (ex_store {} {})
     = (\<lparr>isSubscribed = True\<rparr>, ex_store {(''u1'', ''p2'')} {},
        [Request (DbInsertJoin ''subscriptions'' ''p2'' ''u1'')])"
  by (simp add: handleSubscribe_def db_insert_subscription_def served_def ex_store_def
      ex_podcast_def ex_other_podcast_def ex_user_def)

lemma ex_subscribe_off:
  "handleSubscribe (Some ex_user) ''p2'' NoFault \<lparr>isSubscribed = True\<rparr>
       (ex_store {(''u1'', ''p2'')} {})
     = (\<lparr>isSubscribed = False\<rparr>, ex_store {} {},
        [Request (DbDeleteJoin ''subscriptions'' ''p2'' ''u1'')])"
  by (simp add: handleSubscribe_def db_delete_subscription_def served_def ex_store_def
      ex_user_def)

text \<open>
  The user \<open>u1\<close> favorites and unfavorites the episode \<open>e1\<close>, and subscribes to and
  unsubscribes from the podcast \<open>p2\<close>, starting with empty join tables.
\<close>

theorem toggle_twice_round_trip_witness:
  "pl_episode (ex_player False) = Some (ex_episode 300)
   \<and> (isFavorite (ex_player False) \<longleftrightarrow> (u_id ex_user, e_id (ex_episode 300)) \<in> favorites (ex_store {} {}))
   \<and> favorites_fk (ex_store {} {})
   \<and> handleFavorite (Some ex_user) NoFault (ex_player False) (ex_store {} {})
       = (ex_player True, ex_store {} {(''u1'', ''e1'')},
          [Request (DbInsertJoin ''favorites'' ''e1'' ''u1'')])
   \<and> handleFavorite (Some ex_user) NoFault (ex_player True) (ex_store {} {(''u1'', ''e1'')})
       = (ex_player False, ex_store {} {},
          [Request (DbDeleteJoin ''favorites'' ''e1'' ''u1'')])
   \<and> (u_id ex_user, e_id (ex_episode 300)) \<notin> favorites (ex_store {} {})
   \<and> (isSubscribed \<lparr>isSubscribed = False\<rparr> \<longleftrightarrow> (u_id ex_user, ''p2'') \<in> subscriptions (ex_store {} {}))
   \<and> subscriptions_fk (ex_store {} {})
   \<and> handleSubscribe (Some ex_user) ''p2'' NoFault \<lparr>isSubscribed = False\<rparr> (ex_store {} {})
       = (\<lparr>isSubscribed = True\<rparr>, ex_store {(''u1'', ''p2'')} {},
          [Request (DbInsertJoin ''subscriptions'' ''p2'' ''u1'')])
   \<and> handleSubscribe (Some ex_user) ''p2'' NoFault \<lparr>isSubscribed = True\<rparr>
         (ex_store {(''u1'', ''p2'')} {})
       = (\<lparr>isSubscribed = False\<rparr>, ex_store {} {},
          [Request (DbDeleteJoin ''subscriptions'' ''p2'' ''u1'')])
   \<and> (u_id ex_user, ''p2'') \<notin> subscriptions (ex_store {} {})"
proof -
  have f1: "pl_episode (ex_player False) = Some (ex_episode 300)"
    by (simp add: ex_player_def)
  have f2: "isFavorite (ex_player False) \<longleftrightarrow>
              (u_id ex_user, e_id (ex_episode 300)) \<in> favorites (ex_store {} {})"
    by (simp add: ex_player_def ex_store_def)
  have f3: "favorites_fk (ex_store {} {})"
    by (simp add: favorites_fk_def ex_store_def)
  have g2: "isSubscribed \<lparr>isSubscribed = False\<rparr> \<longleftrightarrow>
              (u_id ex_user, ''p2'') \<in> subscriptions (ex_store {} {})"
    by (simp add: ex_store_def)
  have g3: "subscriptions_fk (ex_store {} {})"
    by (simp add: subscriptions_fk_def ex_store_def)
  note rt = toggle_twice_round_trip [where usr = "Some ex_user" and u = ex_user, OF refl]
  from rt [where s = "ex_player False" and ep = "ex_episode 300" and b = "ex_store {} {}"
      and ?s1.0 = "ex_player True" and ?b1.0 = "ex_store {} {(''u1'', ''e1'')}"
      and ?s2.0 = "ex_player False" and ?b2.0 = "ex_store {} {}"]
    f1 f2 f3 ex_favorite_on ex_favorite_off
  have 1: "(u_id ex_user, e_id (ex_episode 300)) \<notin> favorites (ex_store {} {})"
    by (simp add: ex_player_def)
  from rt [where d = "\<lparr>isSubscribed = False\<rparr>" and ident = "''p2''" and c = "ex_store {} {}"
      and ?d1.0 = "\<lparr>isSubscribed = True\<rparr>" and ?c1.0 = "ex_store {(''u1'', ''p2'')} {}"
      and ?d2.0 = "\<lparr>isSubscribed = False\<rparr>" and ?c2.0 = "ex_store {} {}"]
    g2 g3 ex_subscribe_on ex_subscribe_off
  have 2: "(u_id ex_user, ''p2'') \<notin> subscriptions (ex_store {} {})"
    by simp
  from f1 f2 f3 g2 g3 ex_favorite_on ex_favorite_off ex_subscribe_on ex_subscribe_off 1 2
  show ?thesis by blast
qed

lemma ex_favorite_stale:
  "handleFavorite (Some ex_user) NoFault (ex_player False) (ex_store {} {(''u1'', ''e1'')})
     = (ex_player True, ex_store {} {(''u1'', ''e1'')},
        [Request (DbInsertJoin ''favorites'' ''e1'' ''u1'')])"
  by (simp add: handleFavorite_def db_insert_favorite_def served_def ex_player_def ex_store_def
      ex_episode_def ex_user_def)

lemma ex_favorite_off_failed:
  "handleFavorite (Some ex_user) (StoreError ''timeout'') (ex_player True)
       (ex_store {} {(''u1'', ''e1'')})
     = (ex_player False, ex_store {} {(''u1'', ''e1'')},
        [Request (DbDeleteJoin ''favorites'' ''e1'' ''u1'')])"
  by (simp add: handleFavorite_def db_delete_favorite_def served_def ex_player_def ex_store_def
      ex_episode_def ex_user_def)

text \<open>
  Two runs of two toggles. In the first the flag is clear although the row exists (the flag
  is \<open>false\<close> until the page has read the table, and stays so when that read fails): the
  insert is refused as a duplicate, the delete removes the row, and the table has lost the
  row it started with. In the second the flag agrees with the empty table, the insert is
  served and the delete times out: the flag is clear again and the row is still there.
\<close>

theorem toggle_twice_counterexample:
  "handleFavorite (Some ex_user) NoFault (ex_player False) (ex_store {} {(''u1'', ''e1'')})
     = (ex_player True, ex_store {} {(''u1'', ''e1'')},
        [Request (DbInsertJoin ''favorites'' ''e1'' ''u1'')])
   \<and> handleFavorite (Some ex_user) NoFault (ex_player True) (ex_store {} {(''u1'', ''e1'')})
     = (ex_player False, ex_store {} {},
        [Request (DbDeleteJoin ''favorites'' ''e1'' ''u1'')])
   \<and> favorites (ex_store {} {}) \<noteq> favorites (ex_store {} {(''u1'', ''e1'')})
   \<and> handleFavorite (Some ex_user) NoFault (ex_player False) (ex_store {} {})
     = (ex_player True, ex_store {} {(''u1'', ''e1'')},
        [Request (DbInsertJoin ''favorites'' ''e1'' ''u1'')])
   \<and> handleFavorite (Some ex_user) (StoreError ''timeout'') (ex_player True)
        (ex_store {} {(''u1'', ''e1'')})
     = (ex_player False, ex_store {} {(''u1'', ''e1'')},
        [Request (DbDeleteJoin ''favorites'' ''e1'' ''u1'')])
   \<and> (''u1'', ''e1'') \<in> favorites (ex_store {} {(''u1'', ''e1'')})"
  by (simp add: ex_favorite_stale ex_favorite_off ex_favorite_on ex_favorite_off_failed)
     (simp add: ex_store_def)

lemma handleFavorite_log:
  "ConsoleError c \<in> set (snd (snd (handleFavorite usr flt s b))) \<Longrightarrow> \<exists>m. flt = ClientThrow m"
  by (cases flt)
     (auto simp: handleFavorite_def served_def db_insert_favorite_def db_delete_favorite_def
        split: option.splits if_splits)

lemma handleSubscribe_log:
  "ConsoleError c \<in> set (snd (snd (handleSubscribe usr ident flt s b))) \<Longrightarrow> \<exists>m. flt = ClientThrow m"
  by (cases flt)
     (auto simp: handleSubscribe_def served_def db_insert_subscription_def
        db_delete_subscription_def split: option.splits if_splits)

text \<open>
  Claim C9. The toggles never look at the error value of the store call, and a store error
  does not make the awaited call throw. So when the store rejects the insert or the delete,
  the table is unchanged, nothing is logged (the \<open>catch\<close> block runs only when the await
  itself throws), and the local flag flips all the same: a flag that agreed with the join
  table disagrees with it afterwards.
\<close>

theorem toggle_store_error_unchecked:
  assumes "usr = Some u" and "pl_episode s = Some ep"
  shows "handleFavorite usr (StoreError m) s b
           = (s\<lparr>isFavorite := \<not> isFavorite s\<rparr>, b,
              [Request ((if isFavorite s then DbDeleteJoin else DbInsertJoin)
                          ''favorites'' (e_id ep) (u_id u))])
       \<and> handleSubscribe usr ident (StoreError m) d b
           = (d\<lparr>isSubscribed := \<not> isSubscribed d\<rparr>, b,
              [Request ((if isSubscribed d then DbDeleteJoin else DbInsertJoin)
                          ''subscriptions'' ident (u_id u))])
       \<and> (\<forall>flt c. ConsoleError c \<in> set (snd (snd (handleFavorite usr flt s b)))
             \<longrightarrow> (\<exists>m'. flt = ClientThrow m'))
       \<and> (\<forall>flt c. ConsoleError c \<in> set (snd (snd (handleSubscribe usr ident flt d b)))
             \<longrightarrow> (\<exists>m'. flt = ClientThrow m'))
       \<and> ((isFavorite s \<longleftrightarrow> (u_id u, e_id ep) \<in> favorites b) \<longrightarrow>
            (isFavorite (fst (handleFavorite usr (StoreError m) s b))
               \<longleftrightarrow> (u_id u, e_id ep) \<notin> favorites (fst (snd (handleFavorite usr (StoreError m) s b)))))
       \<and> ((isSubscribed d \<longleftrightarrow> (u_id u, ident) \<in> subscriptions b) \<longrightarrow>
            (isSubscribed (fst (handleSubscribe usr ident (StoreError m) d b))
               \<longleftrightarrow> (u_id u, ident) \<notin> subscriptions (fst (snd (handleSubscribe usr ident (StoreError m) d b)))))"
proof -
  have fav: "handleFavorite usr (StoreError m) s b
           = (s\<lparr>isFavorite := \<not> isFavorite s\<rparr>, b,
              [Request ((if isFavorite s then DbDeleteJoin else DbInsertJoin)
                          ''favorites'' (e_id ep) (u_id u))])"
    using assms
    by (simp add: handleFavorite_def served_def db_insert_favorite_def db_delete_favorite_def)
  have sub: "handleSubscribe usr ident (StoreError m) d b
           = (d\<lparr>isSubscribed := \<not> isSubscribed d\<rparr>, b,
              [Request ((if isSubscribed d then DbDeleteJoin else DbInsertJoin)
                          ''subscriptions'' ident (u_id u))])"
    using assms
    by (simp add: handleSubscribe_def served_def db_insert_subscription_def
        db_delete_subscription_def)
  have log1: "\<forall>flt c. ConsoleError c \<in> set (snd (snd (handleFavorite usr flt s b)))
             \<longrightarrow> (\<exists>m'. flt = ClientThrow m')"
    by (blast dest: handleFavorite_log)
  have log2: "\<forall>flt c. ConsoleError c \<in> set (snd (snd (handleSubscribe usr ident flt d b)))
             \<longrightarrow> (\<exists>m'. flt = ClientThrow m')"
    by (blast dest: handleSubscribe_log)
  show ?thesis
    by (simp only: fav sub) (use log1 log2 in simp)
qed

text \<open>
  The episode \<open>e1\<close> is a favorite of \<open>u1\<close> and the page shows it. The delete times
  out: the row stays, the page shows the episode as no favorite, and nothing is logged.
\<close>

theorem toggle_store_error_unchecked_witness:
  "Some ex_user = Some ex_user \<and> pl_episode (ex_player True) = Some (ex_episode 300)
   \<and> (isFavorite (ex_player True) \<longleftrightarrow> (''u1'', ''e1'') \<in> favorites (ex_store {} {(''u1'', ''e1'')}))
   \<and> handleFavorite (Some ex_user) (StoreError ''timeout'') (ex_player True)
        (ex_store {} {(''u1'', ''e1'')})
       = (ex_player False, ex_store {} {(''u1'', ''e1'')},
          [Request (DbDeleteJoin ''favorites'' ''e1'' ''u1'')])
   \<and> \<not> isFavorite (ex_player False)
   \<and> (''u1'', ''e1'') \<in> favorites (ex_store {} {(''u1'', ''e1'')})"
proof -
  have h2: "pl_episode (ex_player True) = Some (ex_episode 300)"
    by (simp add: ex_player_def)
  from toggle_store_error_unchecked [where usr = "Some ex_user" and u = ex_user
      and m = "''timeout''" and b = "ex_store {} {(''u1'', ''e1'')}", OF refl h2]
  have "handleFavorite (Some ex_user) (StoreError ''timeout'') (ex_player True)
        (ex_store {} {(''u1'', ''e1'')})
       = (ex_player False, ex_store {} {(''u1'', ''e1'')},
          [Request (DbDeleteJoin ''favorites'' ''e1'' ''u1'')])"
    by (simp add: ex_player_def ex_episode_def ex_user_def)
  with h2 show ?thesis by (simp add: ex_player_def ex_store_def)
qed

section \<open>Deleting podcasts and episodes\<close>

lemma db_delete_podcast_frame:
  "filter (\<lambda>p. p_author_id p \<noteq> uid) (podcasts (snd (db_delete_podcast (Some uid) pid flt b)))
     = filter (\<lambda>p. p_author_id p \<noteq> uid) (podcasts b)"
  by (cases flt) (auto simp: db_delete_podcast_def served_def Let_def intro: filter_cong)

lemma handleDeletePodcast_backend:
  "handleDeletePodcast usr pid True flt s b = (s', b', tr)
     \<Longrightarrow> b' = snd (db_delete_podcast (map_option u_id usr) pid flt b)"
  by (cases flt) (auto simp: handleDeletePodcast_def db_delete_podcast_def served_def Let_def)

text \<open>
  Claim C5. When the signed-in author confirms the deletion of one of their podcasts, a
  served delete removes exactly the rows with that id from the store's podcasts and from
  the dashboard's list; and whatever the outcome of the call, the podcasts of every other
  author are the same rows in the same order as before.
\<close>

theorem delete_podcast_frame:
  assumes "usr = Some u"
    and "handleDeletePodcast usr pid True flt s b = (s', b', tr)"
  shows "filter (\<lambda>p. p_author_id p \<noteq> u_id u) (podcasts b')
           = filter (\<lambda>p. p_author_id p \<noteq> u_id u) (podcasts b)
       \<and> (flt = NoFault \<and> owned_by b pid (u_id u) \<longrightarrow>
            podcasts b' = filter (\<lambda>p. p_id p \<noteq> pid) (podcasts b)
          \<and> d_podcasts s' = filter (\<lambda>p. p_id p \<noteq> pid) (d_podcasts s))"
proof (intro conjI impI)
  from assms have b': "b' = snd (db_delete_podcast (Some (u_id u)) pid flt b)"
    by (auto dest: handleDeletePodcast_backend)
  show "filter (\<lambda>p. p_author_id p \<noteq> u_id u) (podcasts b')
          = filter (\<lambda>p. p_author_id p \<noteq> u_id u) (podcasts b)"
    unfolding b' by (rule db_delete_podcast_frame)
  assume ok: "flt = NoFault \<and> owned_by b pid (u_id u)"
  then show "podcasts b' = filter (\<lambda>p. p_id p \<noteq> pid) (podcasts b)"
    unfolding b'
    by (auto simp: db_delete_podcast_def served_def owned_by_def Let_def intro: filter_cong)
  from ok assms show "d_podcasts s' = filter (\<lambda>p. p_id p \<noteq> pid) (d_podcasts s)"
    by (auto simp: handleDeletePodcast_def db_delete_podcast_def served_def Let_def)
qed

lemma ex_delete_podcast:
  "handleDeletePodcast (Some ex_user) ''p1'' True NoFault ex_dash (ex_store {} {(''u1'', ''e1'')})
     = (ex_dash\<lparr>d_podcasts := []\<rparr>,
        (ex_store {} {})\<lparr>podcasts := [ex_other_podcast], episodes := []\<rparr>,
        [Confirm ''Are you sure you want to delete this podcast? This action cannot be undone.'',
         Request (DbDelete ''podcasts'' ''p1'')])"
  by (auto simp: handleDeletePodcast_def db_delete_podcast_def served_def Let_def ex_dash_def
      ex_store_def ex_podcast_def ex_other_podcast_def ex_episode_def ex_user_def)

text \<open>
  The author \<open>u1\<close> deletes the podcast \<open>p1\<close>: it leaves the store (with its episode and
  that episode's favorite) and the dashboard; the podcast \<open>p2\<close> of \<open>u2\<close> stays.
\<close>

theorem delete_podcast_frame_witness:
  "Some ex_user = Some ex_user
   \<and> handleDeletePodcast (Some ex_user) ''p1'' True NoFault ex_dash (ex_store {} {(''u1'', ''e1'')})
       = (ex_dash\<lparr>d_podcasts := []\<rparr>,
          (ex_store {} {})\<lparr>podcasts := [ex_other_podcast], episodes := []\<rparr>,
          [Confirm ''Are you sure you want to delete this podcast? This action cannot be undone.'',
           Request (DbDelete ''podcasts'' ''p1'')])
   \<and> owned_by (ex_store {} {(''u1'', ''e1'')}) ''p1'' (u_id ex_user)
   \<and> filter (\<lambda>p. p_author_id p \<noteq> u_id ex_user) [ex_other_podcast]
       = filter (\<lambda>p. p_author_id p \<noteq> u_id ex_user) [ex_podcast, ex_other_podcast]
   \<and> [ex_other_podcast] = filter (\<lambda>p. p_id p \<noteq> ''p1'') [ex_podcast, ex_other_podcast]
   \<and> ([] :: podcast list) = filter (\<lambda>p. p_id p \<noteq> ''p1'') [ex_podcast]"
proof -
  have own: "owned_by (ex_store {} {(''u1'', ''e1'')}) ''p1'' (u_id ex_user)"
    by (simp add: owned_by_def ex_store_def ex_podcast_def ex_other_podcast_def ex_user_def)
  from delete_podcast_frame [OF refl ex_delete_podcast] own
  have "filter (\<lambda>p. p_author_id p \<noteq> u_id ex_user) [ex_other_podcast]
       = filter (\<lambda>p. p_author_id p \<noteq> u_id ex_user) [ex_podcast, ex_other_podcast]"
    and "[ex_other_podcast] = filter (\<lambda>p. p_id p \<noteq> ''p1'') [ex_podcast, ex_other_podcast]"
    and "([] :: podcast list) = filter (\<lambda>p. p_id p \<noteq> ''p1'') [ex_podcast]"
    by (simp_all add: ex_store_def ex_dash_def)
  with own ex_delete_podcast show ?thesis by blast
qed

lemma db_delete_podcast_served:
  "\<forall>p \<in> set (podcasts (snd (db_delete_podcast (Some uid) pid NoFault b))).
      \<not> (p_id p = pid \<and> p_author_id p = uid)"
  by (auto simp: db_delete_podcast_def served_def Let_def)

lemma db_delete_episode_served:
  "\<forall>e \<in> set (episodes (snd (db_delete_episode (Some uid) eid NoFault b))).
      \<not> (e_id e = eid \<and> owns_episode (Some uid) b (e_podcast_id e))"
  by (auto simp: db_delete_episode_def served_def Let_def)

lemma handleDeletePodcast_cases:
  "handleDeletePodcast usr pid True flt s b =
     (if flt = NoFault then
        (s\<lparr>d_podcasts := filter (\<lambda>p. p_id p \<noteq> pid) (d_podcasts s)\<rparr>,
         snd (db_delete_podcast (map_option u_id usr) pid NoFault b),
         [Confirm ''Are you sure you want to delete this podcast? This action cannot be undone.'',
          Request (DbDelete ''podcasts'' pid)])
      else
        (s, b,
         [Confirm ''Are you sure you want to delete this podcast? This action cannot be undone.'',
          Request (DbDelete ''podcasts'' pid), ConsoleError ''Error deleting podcast:'',
          Alert ''Failed to delete podcast'']))"
  by (cases flt)
     (simp_all add: handleDeletePodcast_def db_delete_podcast_def served_def Let_def)

lemma handleDeleteEpisode_cases:
  "handleDeleteEpisode usr eid True flt t b =
     (if flt = NoFault then
        (t\<lparr>pe_episodes := filter (\<lambda>e. e_id e \<noteq> eid) (pe_episodes t)\<rparr>,
         snd (db_delete_episode (map_option u_id usr) eid NoFault b),
         [Confirm ''Are you sure you want to delete this episode? This action cannot be undone.'',
          Request (DbDelete ''episodes'' eid)])
      else
        (t, b,
         [Confirm ''Are you sure you want to delete this episode? This action cannot be undone.'',
          Request (DbDelete ''episodes'' eid), ConsoleError ''Error deleting episode:'',
          Alert ''Failed to delete episode'']))"
  by (cases flt)
     (simp_all add: handleDeleteEpisode_def db_delete_episode_def served_def Let_def)

text \<open>
  Claim C6. A confirmed deletion of a podcast or of an episode by its owner first sends the
  delete to the store. When the store serves it, no row with that id is left in the store
  and the row is then filtered out of the local list; the local list changes only in that
  case, so a row that has left the list has left the store. When the call fails, by an
  error value or by an exception, the local list and the store are unchanged (the row stays
  visible), the error is logged and the browser alert is shown.
\<close>

theorem delete_then_filter:
  assumes "usr = Some u"
    and "handleDeletePodcast usr pid True flt s b = (s', b', tr)"
    and "handleDeleteEpisode usr eid True flt t b = (t', c', tr')"
    and "owned_by b pid (u_id u)" and "episode_owned_by b eid (u_id u)"
  shows "(flt = NoFault \<longrightarrow>
            pid \<notin> set (map p_id (podcasts b'))
            \<and> d_podcasts s' = filter (\<lambda>p. p_id p \<noteq> pid) (d_podcasts s)
            \<and> tr = [Confirm ''Are you sure you want to delete this podcast? This action cannot be undone.'',
                     Request (DbDelete ''podcasts'' pid)]
            \<and> eid \<notin> set (map e_id (episodes c'))
            \<and> pe_episodes t' = filter (\<lambda>e. e_id e \<noteq> eid) (pe_episodes t)
            \<and> tr' = [Confirm ''Are you sure you want to delete this episode? This action cannot be undone.'',
                      Request (DbDelete ''episodes'' eid)])
       \<and> (flt \<noteq> NoFault \<longrightarrow>
            s' = s \<and> b' = b
            \<and> tr = [Confirm ''Are you sure you want to delete this podcast? This action cannot be undone.'',
                     Request (DbDelete ''podcasts'' pid), ConsoleError ''Error deleting podcast:'',
                     Alert ''Failed to delete podcast'']
            \<and> t' = t \<and> c' = b
            \<and> tr' = [Confirm ''Are you sure you want to delete this episode? This action cannot be undone.'',
                      Request (DbDelete ''episodes'' eid), ConsoleError ''Error deleting episode:'',
                      Alert ''Failed to delete episode''])
       \<and> (d_podcasts s' \<noteq> d_podcasts s \<longrightarrow> pid \<notin> set (map p_id (podcasts b')))
       \<and> (pe_episodes t' \<noteq> pe_episodes t \<longrightarrow> eid \<notin> set (map e_id (episodes c')))"
proof -
  have gone_p: "pid \<notin> set (map p_id (podcasts b'))" if "flt = NoFault"
  proof -
    from that assms(1,2) have "b' = snd (db_delete_podcast (Some (u_id u)) pid NoFault b)"
      by (simp add: handleDeletePodcast_cases)
    moreover have "set (podcasts (snd (db_delete_podcast (Some (u_id u)) pid NoFault b)))
        \<subseteq> set (podcasts b)"
      by (auto simp: db_delete_podcast_def served_def Let_def)
    ultimately show ?thesis
      using db_delete_podcast_served [of "u_id u" pid b] assms(4)
      by (auto simp: owned_by_def)
  qed
  have gone_e: "eid \<notin> set (map e_id (episodes c'))" if "flt = NoFault"
  proof -
    from that assms(1,3) have "c' = snd (db_delete_episode (Some (u_id u)) eid NoFault b)"
      by (simp add: handleDeleteEpisode_cases)
    moreover have "set (episodes (snd (db_delete_episode (Some (u_id u)) eid NoFault b)))
        \<subseteq> set (episodes b)"
      by (auto simp: db_delete_episode_def served_def Let_def)
    ultimately show ?thesis
      using db_delete_episode_served [of "u_id u" eid b] assms(5)
      by (auto simp: episode_owned_by_def)
  qed
  show ?thesis
  proof (cases "flt = NoFault")
    case True
    with assms(2,3) gone_p gone_e show ?thesis
      by (auto simp: handleDeletePodcast_cases handleDeleteEpisode_cases)
  next
    case False
    with assms(2,3) show ?thesis
      by (auto simp: handleDeletePodcast_cases handleDeleteEpisode_cases)
  qed
qed

lemma ex_delete_episode_failed:
  "handleDeleteEpisode (Some ex_user) ''e1'' True (StoreError ''unreachable'') ex_episodes_page
       (ex_store {} {(''u1'', ''e1'')})
     = (ex_episodes_page, ex_store {} {(''u1'', ''e1'')},
        [Confirm ''Are you sure you want to delete this episode? This action cannot be undone.'',
         Request (DbDelete ''episodes'' ''e1''), ConsoleError ''Error deleting episode:'',
         Alert ''Failed to delete episode''])"
  by (simp add: handleDeleteEpisode_cases)

lemma ex_delete_podcast_failed:
  "handleDeletePodcast (Some ex_user) ''p1'' True (StoreError ''unreachable'') ex_dash
       (ex_store {} {(''u1'', ''e1'')})
     = (ex_dash, ex_store {} {(''u1'', ''e1'')},
        [Confirm ''Are you sure you want to delete this podcast? This action cannot be undone.'',
         Request (DbDelete ''podcasts'' ''p1''), ConsoleError ''Error deleting podcast:'',
         Alert ''Failed to delete podcast''])"
  by (simp add: handleDeletePodcast_cases)

lemma ex_delete_episode:
  "handleDeleteEpisode (Some ex_user) ''e1'' True NoFault ex_episodes_page
       (ex_store {} {(''u1'', ''e1'')})
     = (ex_episodes_page\<lparr>pe_episodes := []\<rparr>, (ex_store {} {})\<lparr>episodes := []\<rparr>,
        [Confirm ''Are you sure you want to delete this episode? This action cannot be undone.'',
         Request (DbDelete ''episodes'' ''e1'')])"
  by (auto simp: handleDeleteEpisode_def db_delete_episode_def owns_episode_def served_def Let_def
      ex_episodes_page_def ex_store_def ex_episode_def ex_podcast_def ex_other_podcast_def
      ex_user_def)

lemma ex_owned:
  "owned_by (ex_store {} {(''u1'', ''e1'')}) ''p1'' (u_id ex_user)"
  "episode_owned_by (ex_store {} {(''u1'', ''e1'')}) ''e1'' (u_id ex_user)"
  by (simp_all add: owned_by_def episode_owned_by_def owns_episode_def ex_store_def
      ex_podcast_def ex_other_podcast_def ex_episode_def ex_user_def)

text \<open>
  The author \<open>u1\<close> deletes the podcast \<open>p1\<close> and the episode \<open>e1\<close>. Served, each
  row is in the store before and not after, and has left the list. With the store
  unreachable, lists and store stay as they are and the alert is shown.
\<close>

theorem delete_then_filter_witness:
  "''p1'' \<in> set (map p_id (podcasts (ex_store {} {(''u1'', ''e1'')})))
   \<and> ''e1'' \<in> set (map e_id (episodes (ex_store {} {(''u1'', ''e1'')})))
   \<and> owned_by (ex_store {} {(''u1'', ''e1'')}) ''p1'' (u_id ex_user)
   \<and> episode_owned_by (ex_store {} {(''u1'', ''e1'')}) ''e1'' (u_id ex_user)
   \<and> handleDeletePodcast (Some ex_user) ''p1'' True NoFault ex_dash (ex_store {} {(''u1'', ''e1'')})
       = (ex_dash\<lparr>d_podcasts := []\<rparr>,
          (ex_store {} {})\<lparr>podcasts := [ex_other_podcast], episodes := []\<rparr>,
          [Confirm ''Are you sure you want to delete this podcast? This action cannot be undone.'',
           Request (DbDelete ''podcasts'' ''p1'')])
   \<and> ''p1'' \<notin> set (map p_id (podcasts ((ex_store {} {})\<lparr>podcasts := [ex_other_podcast], episodes := []\<rparr>)))
   \<and> handleDeleteEpisode (Some ex_user) ''e1'' True NoFault ex_episodes_page
        (ex_store {} {(''u1'', ''e1'')})
       = (ex_episodes_page\<lparr>pe_episodes := []\<rparr>, (ex_store {} {})\<lparr>episodes := []\<rparr>,
          [Confirm ''Are you sure you want to delete this episode? This action cannot be undone.'',
           Request (DbDelete ''episodes'' ''e1'')])
   \<and> ''e1'' \<notin> set (map e_id (episodes ((ex_store {} {})\<lparr>episodes := []\<rparr>)))
   \<and> handleDeletePodcast (Some ex_user) ''p1'' True (StoreError ''unreachable'') ex_dash
        (ex_store {} {(''u1'', ''e1'')})
       = (ex_dash, ex_store {} {(''u1'', ''e1'')},
          [Confirm ''Are you sure you want to delete this podcast? This action cannot be undone.'',
           Request (DbDelete ''podcasts'' ''p1''), ConsoleError ''Error deleting podcast:'',
           Alert ''Failed to delete podcast''])
   \<and> handleDeleteEpisode (Some ex_user) ''e1'' True (StoreError ''unreachable'') ex_episodes_page
        (ex_store {} {(''u1'', ''e1'')})
       = (ex_episodes_page, ex_store {} {(''u1'', ''e1'')},
          [Confirm ''Are you sure you want to delete this episode? This action cannot be undone.'',
           Request (DbDelete ''episodes'' ''e1''), ConsoleError ''Error deleting episode:'',
           Alert ''Failed to delete episode''])"
proof -
  have before: "''p1'' \<in> set (map p_id (podcasts (ex_store {} {(''u1'', ''e1'')})))"
      "''e1'' \<in> set (map e_id (episodes (ex_store {} {(''u1'', ''e1'')})))"
    by (simp_all add: ex_store_def ex_podcast_def ex_episode_def)
  note served = delete_then_filter [OF refl ex_delete_podcast ex_delete_episode ex_owned]
  from served
  have 1: "''p1'' \<notin> set (map p_id (podcasts ((ex_store {} {})\<lparr>podcasts := [ex_other_podcast], episodes := []\<rparr>)))"
    and 2: "''e1'' \<notin> set (map e_id (episodes ((ex_store {} {})\<lparr>episodes := []\<rparr>)))"
    by blast+
  with before ex_owned ex_delete_podcast ex_delete_episode ex_delete_podcast_failed
    ex_delete_episode_failed 1 2
  show ?thesis by blast
qed

section \<open>Guarded routes\<close>

lemma segments_protected:
  "segments ''/dashboard'' = Some [''dashboard'']"
  "segments ''/favorites'' = Some [''favorites'']"
  "segments ''/subscriptions'' = Some [''subscriptions'']"
  by (simp_all add: segments_def)

lemma toLowerCase_protected:
  "toLowerCase ''dashboard'' = ''dashboard''"
  "toLowerCase ''favorites'' = ''favorites''"
  "toLowerCase ''subscriptions'' = ''subscriptions''"
  by (simp_all add: toLowerCase_def lower_char_def)

text \<open>
  Claim C3. A request for \<open>/dashboard\<close>, \<open>/favorites\<close> or \<open>/subscriptions\<close> without a
  signed-in user renders the redirect to \<open>/login\<close> as soon as the session state is known,
  and the loading placeholder before that. In neither case is the page component mounted,
  so whatever its mount effect would do, no request goes to the store. The mount effects of
  the dashboard, of the favorites page and of the subscriptions page would themselves
  redirect without a request.
\<close>

theorem protected_routes_redirect:
  assumes "au_user a = None"
    and "path \<in> {''/dashboard'', ''/favorites'', ''/subscriptions''}"
  shows "AppRoutes a path = (if au_loading a then LoadingView else NavigateTo ''/login'')
       \<and> view_effects mounts a (AppRoutes a path)
            = (if au_loading a then [] else [Navigate ''/login''])
       \<and> (\<forall>e \<in> set (view_effects mounts a (AppRoutes a path)). \<not> is_request e)
       \<and> Dashboard_useEffect (au_user a) rep1 s1 = (s1, [Navigate ''/login''])
       \<and> Favorites_useEffect (au_user a) rep2 s2 = (s2, [Navigate ''/login''])
       \<and> Subscriptions_useEffect (au_user a) rep3 s3 = (s3, [Navigate ''/login''])"
proof -
  from assms(2) consider "path = ''/dashboard''" | "path = ''/favorites''"
    | "path = ''/subscriptions''" by blast
  then have r: "AppRoutes a path = (if au_loading a then LoadingView else NavigateTo ''/login'')"
    using assms(1)
    by cases
      (simp_all add: AppRoutes_def ProtectedRoute_def segments_protected toLowerCase_protected)
  show ?thesis
    using assms(1) by (simp add: r view_effects_def is_request_def Dashboard_useEffect_def
        Favorites_useEffect_def Subscriptions_useEffect_def)
qed

text \<open>
  Nobody is signed in and \<open>/favorites\<close> is requested: the only action is the navigation
  to \<open>/login\<close>, although the page would query the store the moment it is mounted.
\<close>

theorem protected_routes_redirect_witness:
  "au_user ex_anonymous = None
   \<and> ''/favorites'' \<in> {''/dashboard'', ''/favorites'', ''/subscriptions''}
   \<and> AppRoutes ex_anonymous ''/favorites'' = NavigateTo ''/login''
   \<and> view_effects ex_eager_mounts ex_anonymous (AppRoutes ex_anonymous ''/favorites'')
       = [Navigate ''/login'']
   \<and> view_effects ex_eager_mounts ex_anonymous (PageView Favorites)
       = [Request (DbSelect ''podcasts'' ''all'')]"
proof -
  have h1: "au_user ex_anonymous = None" by (simp add: ex_anonymous_def)
  have h2: "''/favorites'' \<in> {''/dashboard'', ''/favorites'', ''/subscriptions''}" by simp
  note r = protected_routes_redirect [OF h1 h2, where mounts = ex_eager_mounts]
  from r [THEN conjunct1] r [THEN conjunct2, THEN conjunct1]
  have "AppRoutes ex_anonymous ''/favorites'' = NavigateTo ''/login''"
    and "view_effects ex_eager_mounts ex_anonymous (AppRoutes ex_anonymous ''/favorites'')
       = [Navigate ''/login'']"
    by (simp_all add: ex_anonymous_def)
  moreover have "view_effects ex_eager_mounts ex_anonymous (PageView Favorites)
       = [Request (DbSelect ''podcasts'' ''all'')]"
    by (simp add: view_effects_def ex_eager_mounts_def)
  ultimately show ?thesis using h1 h2 by blast
qed

section \<open>Storage buckets\<close>

lemma checkBucketExists_result:
  assumes "checkBucketExists lf s b = (s', b', tr)"
  shows "b' = b" and "Request (StorageCreateBucket name) \<notin> set tr"
    and "bucketReady s' \<Longrightarrow> bucketReady s \<or> ''podcast-covers'' \<in> set (buckets b)"
  using assms
  by (cases lf; auto simp: checkBucketExists_def served_def storage_listBuckets_def Let_def
        split: if_splits)+

lemma handleImageChange_bucketReady:
  "bucketReady (handleImageChange picked preview s) = bucketReady s"
  by (simp add: handleImageChange_def split: option.splits)

lemma cp_insert_no_upload:
  assumes "cp_insert u frm env url tr0 s b = (s', b', tr)"
    and "Request (StorageUpload bkt path f) \<in> set tr"
  shows "Request (StorageUpload bkt path f) \<in> set tr0"
  using assms
  by (auto simp: cp_insert_def Let_def split: prod.splits reply.splits option.splits)

lemma cp_insert_no_create:
  assumes "cp_insert u frm env url tr0 s b = (s', b', tr)"
    and "Request (StorageCreateBucket name) \<in> set tr"
  shows "Request (StorageCreateBucket name) \<in> set tr0"
  using assms
  by (auto simp: cp_insert_def Let_def split: prod.splits reply.splits option.splits)

lemma onSubmit_podcast_upload:
  assumes "onSubmit_podcast usr frm env s b = (s', b', tr)"
    and "Request (StorageUpload bkt path f) \<in> set tr"
  shows "bucketReady s \<and> coverImage s = Some f \<and> bkt = ''podcast-covers''"
  using assms
  by (auto simp: onSubmit_podcast_def Let_def
      split: prod.splits reply.splits option.splits if_splits dest: cp_insert_no_upload)

lemma onSubmit_podcast_no_create:
  assumes "onSubmit_podcast usr frm env s b = (s', b', tr)"
  shows "Request (StorageCreateBucket name) \<notin> set tr"
  using assms
  by (auto simp: onSubmit_podcast_def Let_def
      split: prod.splits reply.splits option.splits if_splits dest: cp_insert_no_create)

lemma createStorageBucket_buckets:
  assumes "createStorageBucket lf cf b = (b', tr)"
  shows "buckets b' = buckets b
       \<or> (''podcast-audio'' \<notin> set (buckets b) \<and> buckets b' = buckets b @ [''podcast-audio''])"
  using assms
  by (cases lf; cases cf;
      auto simp: createStorageBucket_def served_def storage_listBuckets_def
        storage_createBucket_def Let_def split: if_splits)

lemma createStorageBucket_attempt:
  assumes "createStorageBucket lf cf b = (b', tr)"
    and "''podcast-audio'' \<notin> set (buckets b)" and "\<forall>m. lf \<noteq> ClientThrow m"
  shows "Request (StorageCreateBucket ''podcast-audio'') \<in> set tr"
    and "cf = NoFault \<Longrightarrow> buckets b' = buckets b @ [''podcast-audio'']"
  using assms
  by (cases lf; cases cf;
      auto simp: createStorageBucket_def served_def storage_listBuckets_def
        storage_createBucket_def Let_def split: if_splits)+

lemma ce_mount_storage:
  assumes "ce_mount (Some u) pid sf lf cf s b = (s1, b1, tr1)"
  shows "\<exists>tr0 tr'. createStorageBucket lf cf b = (b1, tr') \<and> tr1 = tr0 @ tr'"
  using assms
  by (auto simp: ce_mount_def Let_def split: prod.splits option.splits if_splits)

lemma storage_upload_buckets:
  "buckets (snd (storage_upload bkt path f ups flt b)) = buckets b"
  by (cases flt) (simp_all add: storage_upload_def served_def)

lemma db_insert_episode_buckets:
  "buckets (snd (db_insert_episode auth row nid ts flt b)) = buckets b"
  by (cases flt) (simp_all add: db_insert_episode_def served_def Let_def)

lemma storage_upload_ok:
  "storage_upload bkt path f ups flt b = (Reply x None, b1) \<Longrightarrow> bkt \<in> set (buckets b)"
  by (cases flt) (auto simp: storage_upload_def served_def split: if_splits)

lemma storage_upload_missing:
  "bkt \<notin> set (buckets b) \<Longrightarrow> snd (storage_upload bkt path f ups flt b) = b"
  by (cases flt) (simp_all add: storage_upload_def served_def)

lemma storage_upload_reply:
  assumes "storage_upload bkt path f ups flt b = (r, b1)"
  shows "buckets b1 = buckets b" and "bkt \<notin> set (buckets b) \<Longrightarrow> b1 = b"
    and "bkt \<notin> set (buckets b) \<Longrightarrow> r \<noteq> Reply x None"
  using assms
  by (cases flt; auto simp: storage_upload_def served_def split: if_splits)+

lemma onSubmit_episode_buckets:
  assumes "onSubmit_episode usr frm env s b = (s', b', tr)"
  shows "buckets b' = buckets b"
  using assms
  by (auto simp: onSubmit_episode_def Let_def db_insert_episode_buckets
        db_insert_episode_null_backend
      split: option.splits prod.splits reply.splits js_duration.splits
      dest!: ce_inserted_result(1) dest: storage_upload_reply(1))

lemma onSubmit_episode_missing_bucket:
  assumes "onSubmit_episode usr frm env s b = (s', b', tr)"
    and "''podcast-audio'' \<notin> set (buckets b)"
  shows "b' = b"
  using assms
  by (auto simp: onSubmit_episode_def Let_def
      split: option.splits prod.splits reply.splits js_duration.splits
      dest: storage_upload_reply(2,3))

lemma onSubmit_episode_insert_bucket:
  assumes "onSubmit_episode usr frm env s b = (s', b', tr)"
    and "Request (DbInsertEpisode row) \<in> set tr"
  shows "''podcast-audio'' \<in> set (buckets b)"
  using assms
  by (auto simp: onSubmit_episode_def ce_inserted_def Let_def
      split: option.splits prod.splits reply.splits js_duration.splits
      dest: storage_upload_ok)

text \<open>
  One event of the create-episode page leaves the list of buckets as it is or appends
  \<open>podcast-audio\<close> to a list that lacks it, and only adds to the trace.
\<close>

lemma ce_step_buckets:
  assumes "ce_step usr (s, b, tr) ev = (s', b', tr')"
  shows "(buckets b' = buckets b
          \<or> (''podcast-audio'' \<notin> set (buckets b) \<and> buckets b' = buckets b @ [''podcast-audio'']))
       \<and> set tr \<subseteq> set tr'"
proof (cases ev)
  case (Mount pid f1 f2 f3)
  show ?thesis
  proof (cases usr)
    case None
    with Mount assms show ?thesis by (auto simp: ce_step_def ce_mount_def)
  next
    case (Some u)
    obtain s1 b1 tr1 where m: "ce_mount (Some u) pid f1 f2 f3 s b = (s1, b1, tr1)"
      by (cases "ce_mount (Some u) pid f1 f2 f3 s b") auto
    from ce_mount_storage [OF m] obtain tr2 where "createStorageBucket f2 f3 b = (b1, tr2)"
      by blast
    from createStorageBucket_buckets [OF this] Mount Some m assms show ?thesis
      by (auto simp: ce_step_def)
  qed
next
  case (AudioChange picked)
  with assms show ?thesis by (auto simp: ce_step_def)
next
  case (Submit frm env)
  with assms show ?thesis
    by (auto simp: ce_step_def split: if_splits prod.splits dest: onSubmit_episode_buckets)
qed

lemma ce_steps_buckets:
  "foldl (ce_step usr) (s, b, tr) evs = (s', b', tr') \<Longrightarrow>
     (buckets b' = buckets b
      \<or> (''podcast-audio'' \<notin> set (buckets b) \<and> buckets b' = buckets b @ [''podcast-audio'']))
     \<and> set tr \<subseteq> set tr'"
proof (induction evs arbitrary: s b tr)
  case Nil
  then show ?case by simp
next
  case (Cons ev evs)
  obtain s1 b1 tr1 where st: "ce_step usr (s, b, tr) ev = (s1, b1, tr1)"
    by (cases "ce_step usr (s, b, tr) ev") auto
  with Cons.prems have rest: "foldl (ce_step usr) (s1, b1, tr1) evs = (s', b', tr')" by simp
  from ce_step_buckets [OF st] Cons.IH [OF rest] show ?case by auto
qed

text \<open>
  Claim C8 (amended). In the create-episode flow, whatever happens on the page after it is
  mounted, the list of buckets is as before or has \<open>podcast-audio\<close> appended once to a
  list that lacked it: a bucket that exists is left alone; when the listing on mount does
  not show the bucket its creation is requested, and when that request is served the bucket
  exists from then on. A refused creation is only logged and does not hold back a later
  submission: the upload is sent without a bucket, storage refuses it and the submission
  changes nothing in the backend; an insert of an episode is requested only after an upload
  into an existing bucket. The create-podcast flow never creates a bucket: its mount effect
  only looks for \<open>podcast-covers\<close>, and a submission uploads a cover only when that
  look-up found the bucket.
\<close>

theorem bucket_setup:
  assumes "usr = Some u"
    and "ce_run usr b (Mount pid sf lf cf # evs) = (s2, b2, tr2)"
    and "onSubmit_episode usr frm env s2 b2 = (s3, b3, tr3)"
    and "checkBucketExists lf' cp_init b = (p1, b4, tr4)"
    and "onSubmit_podcast usr frm' env' (handleImageChange picked preview p1) b4 = (p3, b5, tr5)"
  shows "(buckets b2 = buckets b
          \<or> (''podcast-audio'' \<notin> set (buckets b) \<and> buckets b2 = buckets b @ [''podcast-audio'']))
       \<and> (''podcast-audio'' \<notin> set (buckets b) \<and> (\<forall>m. lf \<noteq> ClientThrow m) \<longrightarrow>
            Request (StorageCreateBucket ''podcast-audio'') \<in> set tr2)
       \<and> (''podcast-audio'' \<notin> set (buckets b) \<and> (\<forall>m. lf \<noteq> ClientThrow m) \<and> cf = NoFault \<longrightarrow>
            buckets b2 = buckets b @ [''podcast-audio''])
       \<and> (\<forall>row. Request (DbInsertEpisode row) \<in> set tr3 \<longrightarrow>
            ''podcast-audio'' \<in> set (buckets b2))
       \<and> (''podcast-audio'' \<notin> set (buckets b2) \<longrightarrow> b3 = b2)
       \<and> b4 = b
       \<and> (\<forall>name. Request (StorageCreateBucket name) \<notin> set (tr4 @ tr5))
       \<and> (\<forall>bkt path f. Request (StorageUpload bkt path f) \<in> set tr5 \<longrightarrow>
            bkt = ''podcast-covers'' \<and> ''podcast-covers'' \<in> set (buckets b))"
proof -
  obtain s1 b1 tr1 where m: "ce_mount (Some u) pid sf lf cf ce_init b = (s1, b1, tr1)"
    by (cases "ce_mount (Some u) pid sf lf cf ce_init b") auto
  with assms(1,2) have rest: "foldl (ce_step usr) (s1, b1, tr1) evs = (s2, b2, tr2)"
    by (simp add: ce_run_def ce_step_def)
  from ce_mount_storage [OF m] obtain tr0 tr' where
      c: "createStorageBucket lf cf b = (b1, tr')" and tr1: "tr1 = tr0 @ tr'"
    by blast
  note first = createStorageBucket_buckets [OF c]
  note later = ce_steps_buckets [OF rest]
  have e1: "buckets b2 = buckets b
          \<or> (''podcast-audio'' \<notin> set (buckets b) \<and> buckets b2 = buckets b @ [''podcast-audio''])"
    using first later by auto
  have e2: "Request (StorageCreateBucket ''podcast-audio'') \<in> set tr2"
    if "''podcast-audio'' \<notin> set (buckets b) \<and> (\<forall>m. lf \<noteq> ClientThrow m)"
    using createStorageBucket_attempt(1) [OF c] that later tr1 by auto
  have e3: "buckets b2 = buckets b @ [''podcast-audio'']"
    if "''podcast-audio'' \<notin> set (buckets b) \<and> (\<forall>m. lf \<noteq> ClientThrow m) \<and> cf = NoFault"
    using createStorageBucket_attempt(2) [OF c] that later by auto
  have e4: "\<forall>row. Request (DbInsertEpisode row) \<in> set tr3 \<longrightarrow>
            ''podcast-audio'' \<in> set (buckets b2)"
    using onSubmit_episode_insert_bucket [OF assms(3)] by blast
  have e5: "''podcast-audio'' \<notin> set (buckets b2) \<longrightarrow> b3 = b2"
    using onSubmit_episode_missing_bucket [OF assms(3)] by blast
  have p1: "b4 = b" using checkBucketExists_result(1) [OF assms(4)] .
  have p2: "\<forall>name. Request (StorageCreateBucket name) \<notin> set (tr4 @ tr5)"
    using checkBucketExists_result(2) [OF assms(4)] onSubmit_podcast_no_create [OF assms(5)]
    by simp
  have p3: "\<forall>bkt path f. Request (StorageUpload bkt path f) \<in> set tr5 \<longrightarrow>
            bkt = ''podcast-covers'' \<and> ''podcast-covers'' \<in> set (buckets b)"
  proof (intro allI impI)
    fix bkt path f
    assume up: "Request (StorageUpload bkt path f) \<in> set tr5"
    from onSubmit_podcast_upload [OF assms(5) up]
    have ready: "bucketReady p1" and bkt: "bkt = ''podcast-covers''"
      by (simp_all add: handleImageChange_bucketReady)
    from checkBucketExists_result(3) [OF assms(4) ready]
    have "''podcast-covers'' \<in> set (buckets b)" by (simp add: cp_init_def)
    with bkt show "bkt = ''podcast-covers'' \<and> ''podcast-covers'' \<in> set (buckets b)" by simp
  qed
  from e1 e2 e3 e4 e5 p1 p2 p3 show ?thesis by blast
qed

lemma ex_check_covers:
  "checkBucketExists NoFault cp_init ex_covers_only
     = (cp_init\<lparr>bucketReady := True\<rparr>, ex_covers_only, [Request StorageListBuckets])"
  by (simp add: checkBucketExists_def storage_listBuckets_def served_def cp_init_def
      ex_covers_only_def ex_backend_def)

lemma ex_submit_cover:
  "onSubmit_podcast (Some ex_user) ex_podcast_form ex_cp_env
       (handleImageChange (Some ex_cover) ''blob:1'' (cp_init\<lparr>bucketReady := True\<rparr>))
       ex_covers_only
     = (\<lparr>coverImage = Some ex_cover, coverImagePreview = Some ''blob:1'',
          cp_isUploading = False, cp_error = None, bucketReady = True\<rparr>,
        ex_covers_only\<lparr>objects := [(''podcast-covers'', ''u1/z81kq.png'')],
          podcasts := [ex_podcast, ex_other_podcast,
            ex_new_podcast (Some ''/storage/v1/object/public/podcast-covers/u1/z81kq.png'')]\<rparr>,
        [Request (StorageUpload ''podcast-covers'' ''u1/z81kq.png'' ex_cover),
         Request (DbInsertPodcast
           (ex_cover_row (Some ''/storage/v1/object/public/podcast-covers/u1/z81kq.png''))),
         Navigate ''/dashboard/podcasts/p3/episodes''])"
  by (simp add: onSubmit_podcast_def cp_insert_def handleImageChange_def startsWith_def
      fileExt_def storage_upload_def db_insert_podcast_def served_def getPublicUrl_def Let_def
      cp_init_def ex_user_def ex_podcast_form_def ex_cp_env_def ex_cover_def ex_covers_only_def
      ex_backend_def ex_podcast_def ex_other_podcast_def ex_new_podcast_def ex_cover_row_def)

lemma ex_reach_created:
  "ce_run (Some ex_user) ex_covers_only
     (Mount (Some ''p1'') NoFault NoFault NoFault # [AudioChange (Some (ex_audio 2048))])
   = (ex_ready 2048, ex_both_buckets,
      [Request (DbSelect ''podcasts'' ''p1''), Request StorageListBuckets,
       Request (StorageCreateBucket ''podcast-audio'')])"
  by (simp add: ce_run_def ce_step_def ce_mount_def ce_fetchPodcast_def createStorageBucket_def
      handleAudioChange_def ce_init_def startsWith_def db_select_podcast_single_def
      storage_listBuckets_def storage_createBucket_def served_def
      ex_user_def ex_podcast_def ex_other_podcast_def ex_backend_def ex_covers_only_def
      ex_both_buckets_def ex_audio_def ex_ready_def)

lemma ex_submit_created:
  "onSubmit_episode (Some ex_user) ex_form (ex_env (LoadedMetadata (7 / 2))) (ex_ready 2048)
     ex_both_buckets
   = (ex_ready 2048,
      ex_both_buckets\<lparr>episodes := [ex_episode 4],
        objects := [(''podcast-audio'', ''p1/k3j9x.mp3'')]\<rparr>,
      ex_submit_trace 2048 4)"
  by (simp add: onSubmit_episode_def ce_inserted_def getAudioDuration_def Math_round_def
      storage_upload_def db_insert_episode_def owns_episode_def served_def getPublicUrl_def
      fileExt_def Let_def ex_user_def ex_podcast_def ex_other_podcast_def ex_episode_def
      ex_backend_def ex_both_buckets_def ex_form_def ex_env_def ex_audio_def ex_ready_def
      ex_row_def ex_submit_trace_def)

text \<open>
  Storage holds \<open>podcast-covers\<close> only. Mounting the create-episode page creates
  \<open>podcast-audio\<close>, and the submission that follows uploads into it and inserts the
  episode; the create-podcast page finds its bucket and uploads the cover to it.
\<close>

theorem bucket_setup_witness:
  "ce_run (Some ex_user) ex_covers_only
     (Mount (Some ''p1'') NoFault NoFault NoFault # [AudioChange (Some (ex_audio 2048))])
     = (ex_ready 2048, ex_both_buckets,
        [Request (DbSelect ''podcasts'' ''p1''), Request StorageListBuckets,
         Request (StorageCreateBucket ''podcast-audio'')])
   \<and> onSubmit_episode (Some ex_user) ex_form (ex_env (LoadedMetadata (7 / 2))) (ex_ready 2048)
       ex_both_buckets
     = (ex_ready 2048,
        ex_both_buckets\<lparr>episodes := [ex_episode 4],
          objects := [(''podcast-audio'', ''p1/k3j9x.mp3'')]\<rparr>,
        ex_submit_trace 2048 4)
   \<and> checkBucketExists NoFault cp_init ex_covers_only
     = (cp_init\<lparr>bucketReady := True\<rparr>, ex_covers_only, [Request StorageListBuckets])
   \<and> Request (StorageUpload ''podcast-covers'' ''u1/z81kq.png'' ex_cover)
       \<in> set (snd (snd (onSubmit_podcast (Some ex_user) ex_podcast_form ex_cp_env
            (handleImageChange (Some ex_cover) ''blob:1'' (cp_init\<lparr>bucketReady := True\<rparr>))
            ex_covers_only)))
   \<and> ''podcast-audio'' \<notin> set (buckets ex_covers_only)
   \<and> buckets ex_both_buckets = buckets ex_covers_only @ [''podcast-audio'']
   \<and> ''podcast-audio'' \<in> set (buckets ex_both_buckets)
   \<and> ''podcast-covers'' \<in> set (buckets ex_covers_only)"
proof -
  note r = bucket_setup [OF refl ex_reach_created ex_submit_created ex_check_covers
      ex_submit_cover]
  have absent: "''podcast-audio'' \<notin> set (buckets ex_covers_only)"
    by (simp add: ex_covers_only_def ex_backend_def)
  have up: "Request (StorageUpload ''podcast-covers'' ''u1/z81kq.png'' ex_cover)
       \<in> set (snd (snd (onSubmit_podcast (Some ex_user) ex_podcast_form ex_cp_env
            (handleImageChange (Some ex_cover) ''blob:1'' (cp_init\<lparr>bucketReady := True\<rparr>))
            ex_covers_only)))"
    by (simp add: ex_submit_cover)
  have ins: "Request (DbInsertEpisode (ex_row 4)) \<in> set (ex_submit_trace 2048 4)"
    by (simp add: ex_submit_trace_def)
  from r absent have 1: "buckets ex_both_buckets = buckets ex_covers_only @ [''podcast-audio'']"
    by blast
  from r ins have 2: "''podcast-audio'' \<in> set (buckets ex_both_buckets)"
    by blast
  from r have "\<forall>bkt path f.
      Request (StorageUpload bkt path f)
        \<in> set [Request (StorageUpload ''podcast-covers'' ''u1/z81kq.png'' ex_cover),
                Request (DbInsertPodcast
                  (ex_cover_row (Some ''/storage/v1/object/public/podcast-covers/u1/z81kq.png''))),
                Navigate ''/dashboard/podcasts/p3/episodes'']
      \<longrightarrow> bkt = ''podcast-covers'' \<and> ''podcast-covers'' \<in> set (buckets ex_covers_only)"
    by blast
  then have 3: "''podcast-covers'' \<in> set (buckets ex_covers_only)"
    by auto
  from ex_reach_created ex_submit_created ex_check_covers up absent 1 2 3 show ?thesis by blast
qed

lemma ex_check_no_buckets:
  "snd (checkBucketExists NoFault cp_init ex_no_buckets)
     = (ex_no_buckets, [Request StorageListBuckets])
   \<and> \<not> bucketReady (fst (checkBucketExists NoFault cp_init ex_no_buckets))
   \<and> coverImage (fst (checkBucketExists NoFault cp_init ex_no_buckets)) = None"
  by (simp add: checkBucketExists_def storage_listBuckets_def served_def cp_init_def
      ex_no_buckets_def ex_backend_def)

lemma ex_submit_no_bucket:
  "\<not> bucketReady s \<Longrightarrow> coverImage s = None \<Longrightarrow>
   snd (onSubmit_podcast (Some ex_user) ex_podcast_form ex_cp_env
          (handleImageChange (Some ex_cover) ''blob:1'' s) ex_no_buckets)
     = (ex_no_buckets, [ConsoleError ''Error creating podcast:''])"
  by (simp add: onSubmit_podcast_def handleImageChange_def startsWith_def Let_def ex_cover_def)

lemma ex_reach_refused:
  "ce_run (Some ex_user) ex_no_buckets ex_refused_events
   = (ex_ready 2048, ex_no_buckets,
      [Request (DbSelect ''podcasts'' ''p1''), Request StorageListBuckets,
       Request (StorageCreateBucket ''podcast-audio''),
       ConsoleError ''Error creating storage bucket:''])"
  by (simp add: ce_run_def ce_step_def ce_mount_def ce_fetchPodcast_def createStorageBucket_def
      handleAudioChange_def ce_init_def startsWith_def db_select_podcast_single_def
      storage_listBuckets_def storage_createBucket_def served_def
      ex_user_def ex_podcast_def ex_other_podcast_def ex_backend_def ex_no_buckets_def
      ex_refused_events_def ex_audio_def ex_ready_def)

lemma ex_submit_refused:
  "onSubmit_episode (Some ex_user) ex_form (ex_env (LoadedMetadata (7 / 2))) (ex_ready 2048)
     ex_no_buckets
   = ((ex_ready 2048)\<lparr>ce_error := Some ''Audio upload failed: Bucket not found''\<rparr>,
      ex_no_buckets,
      [Request (StorageUpload ''podcast-audio'' ''p1/k3j9x.mp3'' (ex_audio 2048)),
       ConsoleError ''Upload error:'', ConsoleError ''Error creating episode:''])"
  by (simp add: onSubmit_episode_def ce_catch_def message_or_def getAudioDuration_def
      storage_upload_def served_def fileExt_def Let_def ex_user_def ex_podcast_def
      ex_backend_def ex_no_buckets_def ex_form_def ex_env_def ex_audio_def ex_ready_def)

text \<open>
  Storage has no bucket at all. The mount effect of the create-podcast page lists the
  buckets and stops: it sends no request to create \<open>podcast-covers\<close>, and storage still
  has no such bucket; a submission with a cover is then refused before any upload. The
  create-episode page asks for \<open>podcast-audio\<close> on mount; storage refuses, which is only
  logged, and the submission that follows sends the upload although there is no bucket.
\<close>

theorem create_podcast_bucket_not_created:
  "snd (checkBucketExists NoFault cp_init ex_no_buckets)
     = (ex_no_buckets, [Request StorageListBuckets])
   \<and> ''podcast-covers'' \<notin> set (buckets ex_no_buckets)
   \<and> \<not> bucketReady (fst (checkBucketExists NoFault cp_init ex_no_buckets))
   \<and> snd (onSubmit_podcast (Some ex_user) ex_podcast_form ex_cp_env
            (handleImageChange (Some ex_cover) ''blob:1''
               (fst (checkBucketExists NoFault cp_init ex_no_buckets)))
            ex_no_buckets)
       = (ex_no_buckets, [ConsoleError ''Error creating podcast:''])
   \<and> ce_run (Some ex_user) ex_no_buckets ex_refused_events
       = (ex_ready 2048, ex_no_buckets,
          [Request (DbSelect ''podcasts'' ''p1''), Request StorageListBuckets,
           Request (StorageCreateBucket ''podcast-audio''),
           ConsoleError ''Error creating storage bucket:''])
   \<and> onSubmit_episode (Some ex_user) ex_form (ex_env (LoadedMetadata (7 / 2))) (ex_ready 2048)
        ex_no_buckets
       = ((ex_ready 2048)\<lparr>ce_error := Some ''Audio upload failed: Bucket not found''\<rparr>,
          ex_no_buckets,
          [Request (StorageUpload ''podcast-audio'' ''p1/k3j9x.mp3'' (ex_audio 2048)),
           ConsoleError ''Upload error:'', ConsoleError ''Error creating episode:''])
   \<and> ''podcast-audio'' \<notin> set (buckets ex_no_buckets)"
  using ex_check_no_buckets ex_submit_no_bucket ex_reach_refused ex_submit_refused
  by (simp add: ex_no_buckets_def ex_backend_def)

section \<open>Create podcast without a cover image\<close>

text \<open>
  Claim C10. A create-podcast submission with no cover image selected sends no upload and
  leaves object storage as it is, whether or not the cover bucket is ready; it sends the
  insert of a podcast row whose \<open>cover_image_url\<close> is null, and when the store serves the
  insert the row is stored, no error is shown and the browser moves on to the episodes of
  the new podcast. The checks of type and size run only on a chosen file: a change event
  without a file leaves the form as it is.
\<close>

theorem create_podcast_without_cover:
  assumes "usr = Some u" and "coverImage s = None"
    and "onSubmit_podcast usr frm env s b = (s', b', tr)"
  shows "(\<forall>bkt path f. Request (StorageUpload bkt path f) \<notin> set tr)
       \<and> objects b' = objects b
       \<and> Request (DbInsertPodcast \<lparr>pi_title = pf_title frm, pi_description = pf_description frm,
                     pi_cover_image_url = None, pi_author_id = u_id u\<rparr>) \<in> set tr
       \<and> (cp_insert_fault env = NoFault \<and> cp_new_id env \<notin> set (map p_id (podcasts b)) \<longrightarrow>
            podcasts b' = podcasts b @
              [\<lparr>p_id = cp_new_id env, p_title = pf_title frm, p_description = pf_description frm,
                p_cover_image_url = None, p_author_id = u_id u, p_created_at = cp_now env,
                p_updated_at = cp_now env\<rparr>]
          \<and> cp_error s' = None
          \<and> tr = [Request (DbInsertPodcast \<lparr>pi_title = pf_title frm,
                     pi_description = pf_description frm, pi_cover_image_url = None,
                     pi_author_id = u_id u\<rparr>),
                   Navigate (''/dashboard/podcasts/'' @ cp_new_id env @ ''/episodes'')])
       \<and> handleImageChange None preview s = s"
proof -
  from assms have run: "cp_insert u frm env None [] (s\<lparr>cp_isUploading := True, cp_error := None\<rparr>) b
      = (s', b', tr)"
    by (simp add: onSubmit_podcast_def Let_def)
  have 1: "\<forall>bkt path f. Request (StorageUpload bkt path f) \<notin> set tr"
    using cp_insert_no_upload [OF run] by auto
  have 2: "objects b' = objects b"
    using run by (cases "cp_insert_fault env")
      (auto simp: cp_insert_def db_insert_podcast_def served_def Let_def split: if_splits)
  have 3: "Request (DbInsertPodcast \<lparr>pi_title = pf_title frm, pi_description = pf_description frm,
                     pi_cover_image_url = None, pi_author_id = u_id u\<rparr>) \<in> set tr"
    using run by (cases "cp_insert_fault env")
      (auto simp: cp_insert_def db_insert_podcast_def served_def Let_def split: if_splits)
  have 4: "cp_insert_fault env = NoFault \<and> cp_new_id env \<notin> set (map p_id (podcasts b)) \<longrightarrow>
            podcasts b' = podcasts b @
              [\<lparr>p_id = cp_new_id env, p_title = pf_title frm, p_description = pf_description frm,
                p_cover_image_url = None, p_author_id = u_id u, p_created_at = cp_now env,
                p_updated_at = cp_now env\<rparr>]
          \<and> cp_error s' = None
          \<and> tr = [Request (DbInsertPodcast \<lparr>pi_title = pf_title frm,
                     pi_description = pf_description frm, pi_cover_image_url = None,
                     pi_author_id = u_id u\<rparr>),
                   Navigate (''/dashboard/podcasts/'' @ cp_new_id env @ ''/episodes'')]"
    using run by (auto simp: cp_insert_def db_insert_podcast_def served_def Let_def)
  have 5: "handleImageChange None preview s = s" by (simp add: handleImageChange_def)
  from 1 2 3 4 5 show ?thesis by blast
qed

lemma ex_submit_plain:
  "onSubmit_podcast (Some ex_user) ex_podcast_form ex_cp_env cp_init ex_no_buckets
     = (cp_init, ex_no_buckets\<lparr>podcasts := [ex_podcast, ex_other_podcast, ex_new_podcast None]\<rparr>,
        [Request (DbInsertPodcast (ex_cover_row None)),
         Navigate ''/dashboard/podcasts/p3/episodes''])"
  by (simp add: onSubmit_podcast_def cp_insert_def db_insert_podcast_def served_def Let_def
      cp_init_def ex_user_def ex_podcast_form_def ex_cp_env_def ex_no_buckets_def
      ex_backend_def ex_podcast_def ex_other_podcast_def ex_new_podcast_def ex_cover_row_def)

text \<open>
  The author \<open>u1\<close> creates the podcast "Test Show" without a cover while storage has no
  bucket: the row is stored with no cover URL and nothing is uploaded.
\<close>

theorem create_podcast_without_cover_witness:
  "Some ex_user = Some ex_user \<and> coverImage cp_init = None
   \<and> onSubmit_podcast (Some ex_user) ex_podcast_form ex_cp_env cp_init ex_no_buckets
       = (cp_init, ex_no_buckets\<lparr>podcasts := [ex_podcast, ex_other_podcast, ex_new_podcast None]\<rparr>,
          [Request (DbInsertPodcast (ex_cover_row None)),
           Navigate ''/dashboard/podcasts/p3/episodes''])
   \<and> cp_insert_fault ex_cp_env = NoFault
   \<and> cp_new_id ex_cp_env \<notin> set (map p_id (podcasts ex_no_buckets))
   \<and> p_cover_image_url (last (podcasts
         (ex_no_buckets\<lparr>podcasts := [ex_podcast, ex_other_podcast, ex_new_podcast None]\<rparr>))) = None
   \<and> objects (ex_no_buckets\<lparr>podcasts := [ex_podcast, ex_other_podcast, ex_new_podcast None]\<rparr>)
       = objects ex_no_buckets"
proof -
  have h2: "coverImage cp_init = None" by (simp add: cp_init_def)
  have ok: "cp_insert_fault ex_cp_env = NoFault"
    and fresh: "cp_new_id ex_cp_env \<notin> set (map p_id (podcasts ex_no_buckets))"
    by (simp_all add: ex_cp_env_def ex_no_buckets_def ex_backend_def ex_podcast_def
        ex_other_podcast_def)
  note r = create_podcast_without_cover [OF refl h2 ex_submit_plain]
  from r have 1: "objects (ex_no_buckets\<lparr>podcasts := [ex_podcast, ex_other_podcast, ex_new_podcast None]\<rparr>)
       = objects ex_no_buckets"
    by blast
  from r ok fresh have "podcasts (ex_no_buckets\<lparr>podcasts := [ex_podcast, ex_other_podcast, ex_new_podcast None]\<rparr>)
      = podcasts ex_no_buckets @
          [\<lparr>p_id = cp_new_id ex_cp_env, p_title = pf_title ex_podcast_form,
            p_description = pf_description ex_podcast_form,
            p_cover_image_url = None, p_author_id = u_id ex_user, p_created_at = cp_now ex_cp_env,
            p_updated_at = cp_now ex_cp_env\<rparr>]"
    by blast
  then have 2: "p_cover_image_url (last (podcasts
         (ex_no_buckets\<lparr>podcasts := [ex_podcast, ex_other_podcast, ex_new_podcast None]\<rparr>))) = None"
    by (simp only: last_snoc podcast.simps)
  from h2 ex_submit_plain ok fresh 1 2 show ?thesis by blast
qed

end
